theory Spec2Isabelle
  imports Main "HOL-Library.Word"
begin

chapter \<open>Model\<close>

section \<open>Go strings\<close>

text \<open>
  Go strings are byte sequences; they are modelled as \<open>string\<close>. The functions of
  package \<open>strings\<close> that the proxy utilities call are written out below.
\<close>

text \<open>\<open>strings.HasPrefix(s, prefix)\<close>.\<close>

fun HasPrefix :: "string \<Rightarrow> string \<Rightarrow> bool" where
  "HasPrefix s [] = True"
| "HasPrefix [] (p # ps) = False"
| "HasPrefix (c # cs) (p # ps) = (c = p \<and> HasPrefix cs ps)"

text \<open>\<open>strings.Contains(s, substr)\<close>: \<open>substr\<close> occurs somewhere within \<open>s\<close>.\<close>

fun Contains :: "string \<Rightarrow> string \<Rightarrow> bool" where
  "Contains [] substr = HasPrefix [] substr"
| "Contains (c # cs) substr = (HasPrefix (c # cs) substr \<or> Contains cs substr)"

text \<open>
  \<open>strings.ToLower(s)\<close> on ASCII strings: the letters \<open>A\<close> to \<open>Z\<close> are mapped to
  \<open>a\<close> to \<open>z\<close>, every other byte is kept. On a string with a byte from 128 on, the
  library function works on the characters that the bytes encode and replaces bytes
  that encode none; this function is not a model of it there. It is used where only the
  comparison of the result with \<open>true\<close> matters, which comes out the same for every
  string of bytes (no character beyond ASCII is lower-cased to one of the letters of
  \<open>true\<close>), and as a stand-in at ASCII inputs where the library function is a
  parameter.
\<close>

definition lower_char :: "char \<Rightarrow> char" where
  "lower_char c =
     (case map_of (zip ''ABCDEFGHIJKLMNOPQRSTUVWXYZ'' ''abcdefghijklmnopqrstuvwxyz'') c of
        None \<Rightarrow> c
      | Some l \<Rightarrow> l)"

definition ToLower :: "string \<Rightarrow> string" where
  "ToLower s = map lower_char s"

text \<open>
  \<open>strings.Split(s, sep)\<close> for a separator of one byte: the pieces between the
  separators, always at least one piece.
\<close>

fun Split :: "string \<Rightarrow> char \<Rightarrow> string list" where
  "Split [] sep = [[]]"
| "Split (c # cs) sep =
     (if c = sep then [] # Split cs sep
      else (case Split cs sep of
              [] \<Rightarrow> [[c]]
            | p # ps \<Rightarrow> (c # p) # ps))"

text \<open>\<open>strings.Join(elems, sep)\<close>.\<close>

fun Join :: "string list \<Rightarrow> string \<Rightarrow> string" where
  "Join [] sep = []"
| "Join [e] sep = e"
| "Join (e # f # es) sep = e @ sep @ Join (f # es) sep"

section \<open>Requests, headers and the request context\<close>

text \<open>
  \<open>http.Header\<close> is a map from canonical header names to the list of their values.
  \<open>Get\<close> yields the first value or the empty string, \<open>Set\<close> replaces all values of a
  name by one, \<open>Del\<close> removes the name. The names used here (\<open>Accept\<close>,
  \<open>Authorization\<close>, \<open>Edge-Cache\<close>, \<open>Retry-After\<close>, \<open>User-Agent\<close>) are in canonical form.
\<close>

type_synonym Header = "string \<rightharpoonup> string list"

definition Header_Get :: "Header \<Rightarrow> string \<Rightarrow> string" where
  "Header_Get h k = (case h k of None \<Rightarrow> [] | Some [] \<Rightarrow> [] | Some (v # vs) \<Rightarrow> v)"

definition Header_Set :: "Header \<Rightarrow> string \<Rightarrow> string \<Rightarrow> Header" where
  "Header_Set h k v = h(k \<mapsto> [v])"

definition Header_Del :: "Header \<Rightarrow> string \<Rightarrow> Header" where
  "Header_Del h k = h(k := None)"

text \<open>\<open>apirequest.RequestInfo\<close>, the fields read by the proxy utilities.\<close>

record RequestInfo =
  IsResourceRequest :: bool
  Verb :: string
  APIGroup :: string
  APIVersion :: string
  Resource :: string
  Subresource :: string
  Name :: string

text \<open>\<open>schema.GroupVersionKind\<close>.\<close>

record GroupVersionKind =
  Group :: string
  Version :: string
  Kind :: string

text \<open>
  Modelled from the spec: the request context carrier of package \<open>yurthub/util\<close>
  (\<open>WithConvertGVK\<close>, \<open>WithReqCanCache\<close>, \<open>WithListSelector\<close>, \<open>WithClientComponent\<close>,
  \<open>WithReqContentType\<close>, \<open>WithIsRequestForPoolScopeMetadata\<close> and their \<open>...From\<close>
  readers), which is not part of the sources at hand. The spec describes it as a mapping
  from a fixed set of well-known keys to values, populated incrementally; a key that was
  never set is \<open>None\<close>. The request info attached by the request classifier and the
  timeout installed by \<open>context.WithTimeout\<close> are further keys of the same carrier.
\<close>

record Context =
  requestInfo :: "RequestInfo option"
  isRequestForPoolScopeMetadata :: "bool option"
  convertGVK :: "GroupVersionKind option"
  reqContentType :: "string option"
  reqCanCache :: "bool option"
  listSelector :: "string option"
  clientComponent :: "string option"
  ctxTimeout :: "64 word option"

record Request =
  header :: Header
  ctx :: Context

text \<open>
  What a stage does with a request: it either calls the next handler with the request as
  it then is, or it answers itself and the next handler is not called.
\<close>

record Response =
  statusCode :: nat
  respHeader :: Header
  message :: string

datatype outcome = ServeHTTP Request | Terminated Response

section \<open>Cache-directive stage\<close>

definition canCacheHeader :: string where
  "canCacheHeader = ''Edge-Cache''"

text \<open>\<open>WithCacheHeaderCheck\<close>.\<close>

definition WithCacheHeaderCheck :: "Request \<Rightarrow> outcome" where
  "WithCacheHeaderCheck req =
     (case requestInfo (ctx req) of
        None \<Rightarrow> ServeHTTP req
      | Some info \<Rightarrow>
          if IsResourceRequest info then
            (let needToCache = ToLower (Header_Get (header req) canCacheHeader);
                 req1 = (if needToCache = ''true''
                         then req\<lparr>ctx := (ctx req)\<lparr>reqCanCache := Some True\<rparr>\<rparr>
                         else req)
             in ServeHTTP (req1\<lparr>header := Header_Del (header req1) canCacheHeader\<rparr>))
          else ServeHTTP req)"

section \<open>Selector extraction\<close>

text \<open>
  A \<open>labels.Selector\<close> or \<open>fields.Selector\<close> is an interface value: \<open>None\<close> is the nil
  selector, \<open>Some s\<close> a selector whose \<open>String()\<close> is \<open>s\<close>.
\<close>

record ListOptions =
  LabelSelector :: "string option"
  FieldSelector :: "string option"
  TimeoutSeconds :: "64 word option"

definition selectorString :: "string option \<Rightarrow> string option \<Rightarrow> string" where
  "selectorString lSelector fSelector =
     (let ls = (case lSelector of None \<Rightarrow> [] | Some s \<Rightarrow> s);
          fs = (case fSelector of None \<Rightarrow> [] | Some s \<Rightarrow> s)
      in if ls \<noteq> [] \<and> fs \<noteq> [] then Join [ls, fs] ''&''
         else if ls \<noteq> [] then ls
         else if fs \<noteq> [] then fs
         else [])"

text \<open>
  \<open>WithListRequestSelector\<close>. The result of decoding the query parameters into list
  options (\<open>ParameterCodec.DecodeParameters\<close>, a library call) is an input: \<open>Inl\<close> an
  error message, \<open>Inr\<close> the decoded options.
\<close>

definition WithListRequestSelector :: "(string + ListOptions) \<Rightarrow> Request \<Rightarrow> outcome" where
  "WithListRequestSelector decoded req =
     (case requestInfo (ctx req) of
        None \<Rightarrow> ServeHTTP req
      | Some info \<Rightarrow>
          if IsResourceRequest info \<and> Verb info = ''list'' \<and> Name info = [] then
            (case decoded of
               Inl err \<Rightarrow> ServeHTTP req
             | Inr opts \<Rightarrow>
                 (let str = selectorString (LabelSelector opts) (FieldSelector opts)
                  in if str \<noteq> []
                     then ServeHTTP (req\<lparr>ctx := (ctx req)\<lparr>listSelector := Some str\<rparr>\<rparr>)
                     else ServeHTTP req))
          else ServeHTTP req)"

section \<open>Partial-metadata negotiation\<close>

text \<open>
  A clause of the \<open>Accept\<close> header as \<open>goautoneg.ParseAccept\<close> returns it. Indexing a Go
  map with a key it does not hold yields the empty string.
\<close>

record Accept =
  Type :: string
  SubType :: string
  Params :: "string \<rightharpoonup> string"

definition param :: "(string \<rightharpoonup> string) \<Rightarrow> string \<Rightarrow> string" where
  "param m k = (case m k of None \<Rightarrow> [] | Some v \<Rightarrow> v)"

text \<open>
  \<open>ensureValidGroupAndVersion\<close>: the cases of the \<open>switch\<close> are tried in the order in
  which the source lists them. \<open>Inl\<close> is the error.
\<close>

definition ensureValidGroupAndVersion :: "GroupVersionKind \<Rightarrow> string + GroupVersionKind" where
  "ensureValidGroupAndVersion gvk =
     (if Contains (Group gvk) ''meta.k8s.io'' then
        (let gvk1 = gvk\<lparr>Group := ''meta.k8s.io''\<rparr>
         in if Contains (Version gvk1) ''v1'' then Inr (gvk1\<lparr>Version := ''v1''\<rparr>)
            else if Contains (Version gvk1) ''v1beta1'' then Inr (gvk1\<lparr>Version := ''v1beta1''\<rparr>)
            else Inl (''unknown version('' @ Version gvk1 @ '') for partialobjectmetadata request''))
      else Inl (''unknown group('' @ Group gvk @ '') for partialobjectmetadata request''))"

text \<open>
  \<open>WithPartialObjectMetadataRequest\<close>. The header parser \<open>goautoneg.ParseAccept\<close> is a
  library function and a parameter here.
\<close>

definition WithPartialObjectMetadataRequest :: "(string \<Rightarrow> Accept list) \<Rightarrow> Request \<Rightarrow> outcome" where
  "WithPartialObjectMetadataRequest ParseAccept req =
     (case requestInfo (ctx req) of
        None \<Rightarrow> ServeHTTP req
      | Some info \<Rightarrow>
          if IsResourceRequest info then
            (let acceptHeader = Header_Get (header req) ''Accept'';
                 clauses = ParseAccept acceptHeader;
                 gvk = (case clauses of
                          [] \<Rightarrow> \<lparr>Group = [], Version = [], Kind = []\<rparr>
                        | c # cs \<Rightarrow> \<lparr>Group = param (Params c) ''g'',
                                     Version = param (Params c) ''v'',
                                     Kind = param (Params c) ''as''\<rparr>)
             in if Kind gvk = ''PartialObjectMetadataList'' \<or> Kind gvk = ''PartialObjectMetadata'' then
                  (case ensureValidGroupAndVersion gvk of
                     Inl err \<Rightarrow> ServeHTTP req
                   | Inr gvk' \<Rightarrow> ServeHTTP (req\<lparr>ctx := (ctx req)\<lparr>convertGVK := Some gvk'\<rparr>\<rparr>))
                else ServeHTTP req)
          else ServeHTTP req)"

section \<open>Client-component extraction\<close>

text \<open>
  \<open>filepath.Clean\<close> and \<open>filepath.Join\<close> with the separator \<open>/\<close>. \<open>Clean\<close> drops empty
  and \<open>.\<close> elements, cancels an inner \<open>..\<close> against the element before it, drops a \<open>..\<close>
  at the start of a rooted path, and yields \<open>.\<close> for an empty result. \<open>Join\<close> skips
  leading empty elements, joins the rest with the separator and cleans the result.
\<close>

fun cleanElems :: "bool \<Rightarrow> string list \<Rightarrow> string list \<Rightarrow> string list" where
  "cleanElems rooted out [] = rev out"
| "cleanElems rooted out (e # es) =
     (if e = [] \<or> e = ''.'' then cleanElems rooted out es
      else if e = ''..'' then
        (case out of
           [] \<Rightarrow> if rooted then cleanElems rooted [] es else cleanElems rooted [''..''] es
         | p # ps \<Rightarrow> if p = ''..'' then cleanElems rooted (''..'' # out) es
                     else cleanElems rooted ps es)
      else cleanElems rooted (e # out) es)"

definition Clean :: "string \<Rightarrow> string" where
  "Clean path =
     (if path = [] then ''.''
      else (let rooted = HasPrefix path ''/'';
                out = Join (cleanElems rooted [] (Split path CHR ''/'')) ''/''
            in if rooted then ''/'' @ out
               else if out = [] then ''.''
               else out))"

definition filepath_Join :: "string list \<Rightarrow> string" where
  "filepath_Join elem =
     (case dropWhile (\<lambda>e. e = []) elem of
        [] \<Rightarrow> []
      | e # es \<Rightarrow> Clean (Join (e # es) ''/''))"

text \<open>\<open>util.WorkingMode\<close>: the hub runs on the cloud side or on the edge side.\<close>

datatype WorkingMode = WorkingModeCloud | WorkingModeEdge

text \<open>
  \<open>WithRequestClientComponent\<close>. The component that it stores is a lower-cased string,
  so the library function \<open>strings.ToLower\<close> is a parameter here, \<open>toLower\<close>.
\<close>

definition WithRequestClientComponent ::
  "(string \<Rightarrow> string) \<Rightarrow> WorkingMode \<Rightarrow> Request \<Rightarrow> outcome" where
  "WithRequestClientComponent toLower mode req =
     (case requestInfo (ctx req) of
        None \<Rightarrow> ServeHTTP req
      | Some info \<Rightarrow>
          if IsResourceRequest info then
            (let userAgent = toLower (Header_Get (header req) ''User-Agent'');
                 userAgent1 = (if mode = WorkingModeEdge then
                                 (case Split userAgent CHR ''/'' of
                                    [] \<Rightarrow> userAgent
                                  | p # ps \<Rightarrow> toLower p)
                               else userAgent)
             in if userAgent1 \<noteq> [] then
                  (let userAgent2 =
                         (case convertGVK (ctx req) of
                            None \<Rightarrow> userAgent1
                          | Some gvk \<Rightarrow>
                              filepath_Join [userAgent1,
                                Join [''partialobjectmetadatas'', Version gvk, Group gvk] ''.''])
                   in ServeHTTP (req\<lparr>ctx := (ctx req)\<lparr>clientComponent := Some userAgent2\<rparr>\<rparr>))
                else ServeHTTP req)
          else ServeHTTP req)"

section \<open>Admission control\<close>

text \<open>
  A Go channel of \<open>bool\<close> on which only \<open>true\<close> is ever sent: either the nil channel, or
  a buffered channel given by its capacity and the number of elements it holds.
\<close>

datatype chan = NilChan | BufChan nat nat

text \<open>\<open>make(chan bool, n)\<close> for a positive \<open>n\<close>: an empty channel of capacity \<open>n\<close>.\<close>

definition make_chan :: "int \<Rightarrow> chan" where
  "make_chan n = BufChan (nat n) 0"

text \<open>
  The send \<open>c <- true\<close> as a case of a \<open>select\<close> that has a \<open>default\<close>: \<open>Some\<close> the
  channel after the send when the send can proceed at once, \<open>None\<close> when the \<open>default\<close>
  case runs. A send on the nil channel can never proceed; a send on a buffered channel
  proceeds while the buffer is not full (no receiver ever waits on these channels, since
  each receive follows a send of the same request).
\<close>

fun trySend :: "chan \<Rightarrow> chan option" where
  "trySend NilChan = None"
| "trySend (BufChan cap n) = (if n < cap then Some (BufChan cap (Suc n)) else None)"

text \<open>
  The receive \<open><-c\<close>: \<open>Some\<close> the channel with one element less, \<open>None\<close> when the
  receive would block.
\<close>

fun receive :: "chan \<Rightarrow> chan option" where
  "receive NilChan = None"
| "receive (BufChan cap n) = (if 0 < n then Some (BufChan cap (n - 1)) else None)"

fun len :: "chan \<Rightarrow> nat" where
  "len NilChan = 0"
| "len (BufChan cap n) = n"

text \<open>
  The state shared by all requests that pass the stage: the two channels that
  \<open>WithMaxInFlightLimit\<close> creates, and the two rejection counters.

  Modelled from the spec: the counters behind \<open>metrics.Metrics.IncRejectedRequestCounter\<close>
  and \<open>metrics.Metrics.IncRejectedMultiplexerRequestCounter\<close>, of package
  \<open>yurthub/metrics\<close>, which is not part of the sources at hand; the spec names a
  rejected-request counter specific to each pool, incremented on a rejection.
\<close>

record InFlight =
  reqChan :: chan
  multiplexerReqChan :: chan
  rejectedRequestCounter :: nat
  rejectedMultiplexerRequestCounter :: nat

text \<open>\<open>WithMaxInFlightLimit\<close>, the part that runs once when the stage is built.\<close>

definition WithMaxInFlightLimit :: "int \<Rightarrow> InFlight" where
  "WithMaxInFlightLimit limit =
     \<lparr>reqChan = (if 0 < limit then make_chan limit else NilChan),
      multiplexerReqChan = make_chan 4096,
      rejectedRequestCounter = 0,
      rejectedMultiplexerRequestCounter = 0\<rparr>"

text \<open>
  Modelled from the spec: \<open>util.Err\<close> of package \<open>yurthub/util\<close>, which is not part of the
  sources at hand, writes the status of the error it is given to the response writer;
  for \<open>errors.NewTooManyRequestsError\<close> the spec gives status 429, for
  \<open>errors.NewBadRequest\<close> status 400. The response carries the headers of the response
  writer \<open>w\<close> at that moment. The library function \<open>errors.NewTooManyRequestsError\<close>
  puts \<open>Too many requests: \<close> before the message it is given; \<open>errors.NewBadRequest\<close>
  takes its message as it is.
\<close>

definition Err :: "nat \<Rightarrow> string \<Rightarrow> Header \<Rightarrow> Response" where
  "Err code msg w = \<lparr>statusCode = code, respHeader = w, message = msg\<rparr>"

definition NewTooManyRequestsError :: "string \<Rightarrow> Header \<Rightarrow> Response" where
  "NewTooManyRequestsError msg w = Err 429 (''Too many requests: '' @ msg) w"

definition NewBadRequest :: "string \<Rightarrow> Header \<Rightarrow> Response" where
  "NewBadRequest msg w = Err 400 msg w"

definition isPoolScope :: "Request \<Rightarrow> bool" where
  "isPoolScope req = (case isRequestForPoolScopeMetadata (ctx req) of None \<Rightarrow> False | Some b \<Rightarrow> b)"

text \<open>
  The handler that \<open>WithMaxInFlightLimit\<close> returns, up to the call of the next handler:
  the \<open>select\<close> on the channel of the request's pool. \<open>w\<close> is the header map of the
  response writer.
\<close>

definition maxInFlightEnter :: "string \<Rightarrow> Header \<Rightarrow> Request \<Rightarrow> InFlight \<Rightarrow> outcome \<times> InFlight" where
  "maxInFlightEnter nodeName w req s =
     (if isPoolScope req then
        (case trySend (multiplexerReqChan s) of
           Some c \<Rightarrow> (ServeHTTP req, s\<lparr>multiplexerReqChan := c\<rparr>)
         | None \<Rightarrow>
             (Terminated (NewTooManyRequestsError
                (''Too many multiplexer requests for node('' @ nodeName @ ''), please try again later.'')
                (Header_Set w ''Retry-After'' ''1'')),
              s\<lparr>rejectedMultiplexerRequestCounter := rejectedMultiplexerRequestCounter s + 1\<rparr>))
      else
        (case trySend (reqChan s) of
           Some c \<Rightarrow> (ServeHTTP req, s\<lparr>reqChan := c\<rparr>)
         | None \<Rightarrow>
             (Terminated (NewTooManyRequestsError ''Too many requests, please try again later.''
                (Header_Set w ''Retry-After'' ''1'')),
              s\<lparr>rejectedRequestCounter := rejectedRequestCounter s + 1\<rparr>)))"

text \<open>
  The deferred function of an admitted request. Go runs it when the next handler returns
  and also when it panics, so the way the handler ended does not enter the result.
  \<open>None\<close>: the receive would block.
\<close>

datatype exit_path = Returned | Panicked

definition maxInFlightLeave :: "exit_path \<Rightarrow> Request \<Rightarrow> InFlight \<Rightarrow> InFlight option" where
  "maxInFlightLeave how req s =
     (if isPoolScope req then
        (case receive (multiplexerReqChan s) of
           None \<Rightarrow> None
         | Some c \<Rightarrow> Some (s\<lparr>multiplexerReqChan := c\<rparr>))
      else
        (case receive (reqChan s) of
           None \<Rightarrow> None
         | Some c \<Rightarrow> Some (s\<lparr>reqChan := c\<rparr>)))"

text \<open>
  Requests are served concurrently; channel operations are atomic, so a run of the stage
  is an interleaving of arrivals and of completions of admitted requests. \<open>run\<close> gives
  the outcomes of the arrivals, in order, and the state reached; \<open>None\<close> when a
  completion has no admitted request to complete.
\<close>

datatype event = Arrive Request | Leave Request exit_path

fun run :: "string \<Rightarrow> Header \<Rightarrow> InFlight \<Rightarrow> event list \<Rightarrow> (outcome list \<times> InFlight) option" where
  "run nodeName w s [] = Some ([], s)"
| "run nodeName w s (Arrive req # evs) =
     (case maxInFlightEnter nodeName w req s of
        (out, s') \<Rightarrow>
          (case run nodeName w s' evs of
             None \<Rightarrow> None
           | Some (outs, s'') \<Rightarrow> Some (out # outs, s'')))"
| "run nodeName w s (Leave req how # evs) =
     (case maxInFlightLeave how req s of
        None \<Rightarrow> None
      | Some s' \<Rightarrow> run nodeName w s' evs)"

text \<open>
  For the statements about the stage: the pool that the stage selects for a request, the
  capacity of a channel (none for the nil channel), a channel on which no send can
  proceed (the nil channel, or a buffer that is full), and the response to a rejected
  ordinary request.
\<close>

definition pool :: "Request \<Rightarrow> InFlight \<Rightarrow> chan" where
  "pool req s = (if isPoolScope req then multiplexerReqChan s else reqChan s)"

fun cap :: "chan \<Rightarrow> nat option" where
  "cap NilChan = None"
| "cap (BufChan c n) = Some c"

fun full :: "chan \<Rightarrow> bool" where
  "full NilChan = True"
| "full (BufChan c n) = (c \<le> n)"

definition tooManyRequests :: "Header \<Rightarrow> Response" where
  "tooManyRequests w =
     \<lparr>statusCode = 429, respHeader = w(''Retry-After'' \<mapsto> [''1'']),
      message = ''Too many requests: Too many requests, please try again later.''\<rparr>"

section \<open>Timeout adjustment\<close>

text \<open>
  \<open>int64\<close> and \<open>time.Duration\<close> (a count of nanoseconds) are 64-bit words read as two's
  complement: \<open>+\<close>, \<open>-\<close> and \<open>*\<close> wrap around, comparisons are signed.
\<close>

definition watchTimeoutMargin :: "64 word" where
  "watchTimeoutMargin = 15"

definition getAndListTimeoutReduce :: "64 word" where
  "getAndListTimeoutReduce = 2"

definition Second :: "64 word" where
  "Second = 1000000000"

definition needModifyTimeoutVerb :: "string \<Rightarrow> bool" where
  "needModifyTimeoutVerb verb = (verb = ''get'' \<or> verb = ''list'' \<or> verb = ''watch'')"

text \<open>
  The timeout that \<open>WithRequestTimeout\<close> computes, 0 when it computes none; \<open>Inl\<close> when
  decoding the parameters of a list or watch request failed. The inputs that library
  calls produce: \<open>decoded\<close>, the result of \<open>ParameterCodec.DecodeParameters\<close> on the query;
  \<open>query_timeout\<close>, the values of the query parameter \<open>timeout\<close>; \<open>ParseDuration\<close>, the
  function \<open>time.ParseDuration\<close>.
\<close>

definition requestTimeout ::
  "(string \<Rightarrow> string + 64 word) \<Rightarrow> (string + ListOptions) \<Rightarrow> string list \<Rightarrow> RequestInfo
     \<Rightarrow> string + 64 word" where
  "requestTimeout ParseDuration decoded query_timeout info =
     (if Verb info = ''list'' \<or> Verb info = ''watch'' then
        (case decoded of
           Inl err \<Rightarrow> Inl err
         | Inr opts \<Rightarrow>
             (case TimeoutSeconds opts of
                None \<Rightarrow> Inr 0
              | Some ts \<Rightarrow>
                  if Verb info = ''watch'' then Inr ((ts + watchTimeoutMargin) * Second)
                  else if getAndListTimeoutReduce <s ts
                       then Inr ((ts - getAndListTimeoutReduce) * Second)
                  else Inr 0))
      else if Verb info = ''get'' then
        (case query_timeout of
           [] \<Rightarrow> Inr 0
         | str # strs \<Rightarrow>
             (case ParseDuration str of
                Inl err \<Rightarrow> Inr 0
              | Inr t \<Rightarrow>
                  if getAndListTimeoutReduce * Second <s t
                  then Inr (t - getAndListTimeoutReduce * Second)
                  else Inr 0))
      else Inr 0)"

text \<open>
  \<open>WithRequestTimeout\<close>. The timeout handed to \<open>context.WithTimeout\<close> is recorded in the
  context.
\<close>

definition WithRequestTimeout ::
  "(string \<Rightarrow> string + 64 word) \<Rightarrow> (string + ListOptions) \<Rightarrow> string list \<Rightarrow> Header \<Rightarrow> Request
     \<Rightarrow> outcome" where
  "WithRequestTimeout ParseDuration decoded query_timeout w req =
     (case requestInfo (ctx req) of
        None \<Rightarrow> ServeHTTP req
      | Some info \<Rightarrow>
          if IsResourceRequest info \<and> needModifyTimeoutVerb (Verb info) then
            (case requestTimeout ParseDuration decoded query_timeout info of
               Inl err \<Rightarrow> Terminated (NewBadRequest err w)
             | Inr t \<Rightarrow>
                 if 0 <s t
                 then ServeHTTP (req\<lparr>ctx := (ctx req)\<lparr>ctxTimeout := Some t\<rparr>\<rparr>)
                 else ServeHTTP req)
          else ServeHTTP req)"

section \<open>Credential rewriting\<close>

text \<open>
  \<open>tenant.Interface\<close>, as far as the stage consults it: the tenant's namespace, whether
  its credential cache is synchronized, and the cached token.
\<close>

record Tenant =
  GetTenantNs :: string
  WaitForCacheSync :: bool
  GetTenantToken :: string

text \<open>\<open>jwt.Claims\<close>, the claim that is read.\<close>

record Claims =
  Subject :: string

text \<open>
  \<open>WithSaTokenSubstitute\<close>. The parsers it calls are parameters: \<open>ParseBearerToken\<close>
  (package \<open>yurthub/util\<close>; the empty string when the header holds no bearer token),
  \<open>ParseSigned\<close> and \<open>UnsafeClaimsWithoutVerification\<close> (package \<open>jwt\<close>) and
  \<open>SplitUsername\<close> (package \<open>serviceaccount\<close>, yielding namespace and name); \<open>Inl\<close> is
  their error.
\<close>

definition WithSaTokenSubstitute ::
  "(string \<Rightarrow> string) \<Rightarrow> (string \<Rightarrow> string + 'jwt) \<Rightarrow> ('jwt \<Rightarrow> string + Claims)
     \<Rightarrow> (string \<Rightarrow> string + string \<times> string) \<Rightarrow> Tenant \<Rightarrow> Request \<Rightarrow> outcome" where
  "WithSaTokenSubstitute ParseBearerToken ParseSigned UnsafeClaimsWithoutVerification
       SplitUsername tenantMgr req =
     (let oldToken = ParseBearerToken (Header_Get (header req) ''Authorization'')
      in if oldToken \<noteq> [] then
           (case ParseSigned oldToken of
              Inl err \<Rightarrow> ServeHTTP req
            | Inr jsonWebToken \<Rightarrow>
                (case UnsafeClaimsWithoutVerification jsonWebToken of
                   Inl err \<Rightarrow> ServeHTTP req
                 | Inr oldClaim \<Rightarrow>
                     (case SplitUsername (Subject oldClaim) of
                        Inl err \<Rightarrow> ServeHTTP req
                      | Inr (tenantNs, saName) \<Rightarrow>
                          if GetTenantNs tenantMgr \<noteq> tenantNs \<and> tenantNs = ''kube-system''
                             \<and> WaitForCacheSync tenantMgr
                          then ServeHTTP (req\<lparr>header := Header_Set (header req) ''Authorization''
                                                      (''Bearer '' @ GetTenantToken tenantMgr)\<rparr>)
                          else ServeHTTP req)))
         else ServeHTTP req)"

section \<open>The pod environment filter\<close>

text \<open>
  \<open>corev1.Pod\<close> down to the environment variables of its containers. The fields that the
  filter never reads are kept as one component of each record, of a type left open.
\<close>

record 'e EnvVar =
  EnvName :: string
  Value :: string
  EnvRest :: 'e

record ('e, 'c) Container =
  ContainerName :: string
  Env :: "'e EnvVar list"
  ContainerRest :: 'c

record ('e, 'c, 's) PodSpec =
  Containers :: "('e, 'c) Container list"
  SpecRest :: 's

record ('e, 'c, 's, 'p) Pod =
  Spec :: "('e, 'c, 's) PodSpec"
  PodRest :: 'p

text \<open>
  A \<open>runtime.Object\<close>: a pod, or an object of another type, which the filter does not
  look into.
\<close>

datatype ('e, 'c, 's, 'p, 'o) Object = PodObject "('e, 'c, 's, 'p) Pod" | OtherObject 'o

definition envVarServiceHost :: string where
  "envVarServiceHost = ''KUBERNETES_SERVICE_HOST''"

text \<open>
  The inner loop of \<open>mutatePodEnv\<close> over the variables of one container: the first
  variable with the name gets the host as its value, and the loop ends there.
\<close>

fun mutateEnv :: "string \<Rightarrow> 'e EnvVar list \<Rightarrow> 'e EnvVar list" where
  "mutateEnv host [] = []"
| "mutateEnv host (envVar # envVars) =
     (if EnvName envVar = envVarServiceHost then envVar\<lparr>Value := host\<rparr> # envVars
      else envVar # mutateEnv host envVars)"

text \<open>
  \<open>mutatePodEnv\<close>, with the host of the filter as first argument. The source updates the
  pod in place and returns the pointer it was given; the model returns the pod as it is
  afterwards.
\<close>

definition mutatePodEnv :: "string \<Rightarrow> ('e, 'c, 's, 'p) Pod \<Rightarrow> ('e, 'c, 's, 'p) Pod" where
  "mutatePodEnv host req =
     req\<lparr>Spec := (Spec req)\<lparr>Containers :=
            map (\<lambda>c. c\<lparr>Env := mutateEnv host (Env c)\<rparr>) (Containers (Spec req))\<rparr>\<rparr>"

text \<open>\<open>podEnvFilter.Filter\<close>.\<close>

definition Filter :: "string \<Rightarrow> ('e, 'c, 's, 'p, 'o) Object \<Rightarrow> ('e, 'c, 's, 'p, 'o) Object" where
  "Filter host obj =
     (case obj of
        PodObject v \<Rightarrow> PodObject (mutatePodEnv host v)
      | OtherObject v \<Rightarrow> OtherObject v)"

text \<open>
  \<open>NewPodEnvFilter\<close> leaves the host empty; \<open>SetMasterServiceHost\<close> sets it and
  \<open>SetMasterServicePort\<close> does nothing.
\<close>

definition NewPodEnvFilter :: string where
  "NewPodEnvFilter = []"

definition SetMasterServiceHost :: "string \<Rightarrow> string \<Rightarrow> string" where
  "SetMasterServiceHost host pef = host"

definition SetMasterServicePort :: "string \<Rightarrow> string \<Rightarrow> string" where
  "SetMasterServicePort portStr pef = pef"

section \<open>Example inputs\<close>

definition emptyContext :: Context where
  "emptyContext =
     \<lparr>requestInfo = None, isRequestForPoolScopeMetadata = None, convertGVK = None,
      reqContentType = None, reqCanCache = None, listSelector = None,
      clientComponent = None, ctxTimeout = None\<rparr>"

text \<open>The request info of a request for the resource \<open>pods\<close> with the given verb.\<close>

definition podsInfo :: "string \<Rightarrow> RequestInfo" where
  "podsInfo verb =
     \<lparr>IsResourceRequest = True, Verb = verb, APIGroup = [], APIVersion = ''v1'',
      Resource = ''pods'', Subresource = [], Name = []\<rparr>"

text \<open>A request for \<open>pods\<close> with the given verb and headers, one value for each header.\<close>

definition podsRequest :: "string \<Rightarrow> (string \<times> string) list \<Rightarrow> Request" where
  "podsRequest verb hdrs =
     \<lparr>header = map_of (map (\<lambda>(k, v). (k, [v])) hdrs),
      ctx = emptyContext\<lparr>requestInfo := Some (podsInfo verb)\<rparr>\<rparr>"

text \<open>
  Stand-ins for the parsers that the credential rewriter calls, for use at concrete
  requests: a bearer token is what follows \<open>Bearer \<close>; a token is represented by the
  subject it carries, and only the token \<open>T1\<close> parses; a user name splits into namespace
  and name when it has the service-account prefix and two parts.
\<close>

definition exampleParseBearerToken :: "string \<Rightarrow> string" where
  "exampleParseBearerToken h = (if HasPrefix h ''Bearer '' then drop 7 h else [])"

definition exampleParseSigned :: "string \<Rightarrow> string + string" where
  "exampleParseSigned token =
     (if token = ''T1'' then Inr ''system:serviceaccount:kube-system:default''
      else Inl ''compact JWS format must have three parts'')"

definition exampleClaims :: "string \<Rightarrow> string + Claims" where
  "exampleClaims jsonWebToken = Inr \<lparr>Subject = jsonWebToken\<rparr>"

definition exampleSplitUsername :: "string \<Rightarrow> string + string \<times> string" where
  "exampleSplitUsername username =
     (if HasPrefix username ''system:serviceaccount:'' then
        (case Split (drop 22 username) CHR '':'' of
           [namespace, name] \<Rightarrow> Inr (namespace, name)
         | _ \<Rightarrow> Inl ''Username must be in the form system:serviceaccount:namespace:name'')
      else Inl ''Username must be in the form system:serviceaccount:namespace:name'')"

text \<open>A parser of durations that accepts nothing, where the parameter is not used.\<close>

definition noParseDuration :: "string \<Rightarrow> string + 64 word" where
  "noParseDuration str = Inl ''time: invalid duration''"

text \<open>List options with a timeout only, and with selectors only.\<close>

definition timeoutOptions :: "64 word \<Rightarrow> ListOptions" where
  "timeoutOptions ts = \<lparr>LabelSelector = None, FieldSelector = None, TimeoutSeconds = Some ts\<rparr>"

definition selectorOptions :: "string option \<Rightarrow> string option \<Rightarrow> ListOptions" where
  "selectorOptions l f = \<lparr>LabelSelector = l, FieldSelector = f, TimeoutSeconds = None\<rparr>"

text \<open>Tenants for concrete requests: one in its own namespace, one in \<open>kube-system\<close>.\<close>

definition tenantA :: Tenant where
  "tenantA = \<lparr>GetTenantNs = ''tenant-a'', WaitForCacheSync = True, GetTenantToken = ''T2''\<rparr>"

definition tenantKubeSystem :: Tenant where
  "tenantKubeSystem =
     \<lparr>GetTenantNs = ''kube-system'', WaitForCacheSync = True, GetTenantToken = ''T2''\<rparr>"

text \<open>A parser of durations that knows \<open>5s\<close> and \<open>1s\<close>.\<close>

definition exampleParseDuration :: "string \<Rightarrow> string + 64 word" where
  "exampleParseDuration str =
     (if str = ''5s'' then Inr 5000000000
      else if str = ''1s'' then Inr 1000000000
      else Inl ''time: invalid duration'')"

text \<open>A response writer on which no header has been set.\<close>

definition noHeader :: Header where
  "noHeader = Map.empty"

text \<open>A pool-scope request: the mark is set to true in its context.\<close>

definition poolScopeRequest :: Request where
  "poolScopeRequest =
     (podsRequest ''list'' [])\<lparr>ctx := (ctx (podsRequest ''list'' []))\<lparr>isRequestForPoolScopeMetadata := Some True\<rparr>\<rparr>"



definition closedGate :: InFlight where
  "closedGate =
     \<lparr>reqChan = NilChan, multiplexerReqChan = BufChan 4096 1,
      rejectedRequestCounter = 1, rejectedMultiplexerRequestCounter = 0\<rparr>"

text \<open>
  An \<open>Accept\<close> header that asks for the metadata of a list in version \<open>v1beta1\<close>, and a
  stand-in for the header parser that knows this header.
\<close>

definition partialMetadataAccept :: string where
  "partialMetadataAccept = ''application/json;as=PartialObjectMetadataList;g=meta.k8s.io;v=v1beta1''"

definition exampleParseAccept :: "string \<Rightarrow> Accept list" where
  "exampleParseAccept h =
     (if h = partialMetadataAccept then
        [\<lparr>Type = ''application'', SubType = ''json'',
          Params = [''as'' \<mapsto> ''PartialObjectMetadataList'', ''g'' \<mapsto> ''meta.k8s.io'',
                    ''v'' \<mapsto> ''v1beta1'']\<rparr>]
      else [])"

text \<open>
  The pod of the filter's tests: one container with the variables
  \<open>KUBERNETES_SERVICE_HOST\<close>, of the given value, and \<open>OTHER_ENV_VAR\<close>.
\<close>

definition testPod :: "string \<Rightarrow> (unit, unit, unit, unit) Pod" where
  "testPod v =
     \<lparr>Spec = \<lparr>Containers =
                [\<lparr>ContainerName = ''test-container'',
                  Env = [\<lparr>EnvName = ''KUBERNETES_SERVICE_HOST'', Value = v, EnvRest = ()\<rparr>,
                         \<lparr>EnvName = ''OTHER_ENV_VAR'', Value = ''some-value'', EnvRest = ()\<rparr>],
                  ContainerRest = ()\<rparr>],
              SpecRest = ()\<rparr>,
      PodRest = ()\<rparr>"

definition testPodObject :: "string \<Rightarrow> (unit, unit, unit, unit, unit) Object" where
  "testPodObject v = PodObject (testPod v)"

text \<open>
  The pods of the filter's tests in general: one container for each list of variables,
  each variable a name and a value.
\<close>

definition envPod :: "(string \<times> string) list list \<Rightarrow> (unit, unit, unit, unit, unit) Object" where
  "envPod envs =
     PodObject
       \<lparr>Spec = \<lparr>Containers =
                  map (\<lambda>env. \<lparr>ContainerName = ''test-container'',
                               Env = map (\<lambda>(n, v). \<lparr>EnvName = n, Value = v, EnvRest = ()\<rparr>) env,
                               ContainerRest = ()\<rparr>) envs,
                SpecRest = ()\<rparr>,
        PodRest = ()\<rparr>"

definition masterHost :: string where
  "masterHost = ''169.254.2.1''"

text \<open>
  A get request for pods with the given \<open>User-Agent\<close> header, and the same request after
  the negotiation stage stored the given override.
\<close>

definition agentRequest :: "string \<Rightarrow> Request" where
  "agentRequest agent = podsRequest ''get'' [(''User-Agent'', agent)]"

definition overrideRequest :: "string \<Rightarrow> GroupVersionKind \<Rightarrow> Request" where
  "overrideRequest agent gvk =
     (agentRequest agent)\<lparr>ctx := (ctx (agentRequest agent))\<lparr>convertGVK := Some gvk\<rparr>\<rparr>"

text \<open>The request with the client component stored in its context.\<close>

definition withComponent :: "string \<Rightarrow> Request \<Rightarrow> Request" where
  "withComponent component req = req\<lparr>ctx := (ctx req)\<lparr>clientComponent := Some component\<rparr>\<rparr>"

chapter \<open>Verification\<close>

section \<open>The cache-directive stage\<close>

text \<open>
  Claim C10. For every resource-addressed request, the cache-directive stage calls the
  next handler with a request from which the \<open>Edge-Cache\<close> header is removed, whatever
  its value was (absent, empty, or anything else); every other header is as before; the
  can-cache flag of the context is set to true when the lower-cased value of the header
  is \<open>true\<close> and is left as it was otherwise; every other key of the context is as
  before.
\<close>

theorem WithCacheHeaderCheck_frame:
  assumes "requestInfo (ctx req) = Some info" and "IsResourceRequest info"
  shows "\<exists>req'. WithCacheHeaderCheck req = ServeHTTP req'
           \<and> header req' canCacheHeader = None
           \<and> (\<forall>k. k \<noteq> canCacheHeader \<longrightarrow> header req' k = header req k)
           \<and> reqCanCache (ctx req') =
               (if ToLower (Header_Get (header req) canCacheHeader) = ''true''
                then Some True else reqCanCache (ctx req))
           \<and> (ctx req')\<lparr>reqCanCache := reqCanCache (ctx req)\<rparr> = ctx req"
  using assms by (simp add: WithCacheHeaderCheck_def Header_Del_def Let_def)

text \<open>
  The theorem at a \<open>get\<close> request with the headers \<open>Edge-Cache: True\<close> and
  \<open>Accept: application/json\<close>: the first header is gone, the second is kept, the flag is
  set, and the selector key of the context is still unset.
\<close>

theorem WithCacheHeaderCheck_frame_witness:
  "requestInfo (ctx (podsRequest ''get'' [(''Edge-Cache'', ''True''), (''Accept'', ''application/json'')]))
     = Some (podsInfo ''get'')
   \<and> IsResourceRequest (podsInfo ''get'')
   \<and> (\<exists>req'. WithCacheHeaderCheck
                (podsRequest ''get'' [(''Edge-Cache'', ''True''), (''Accept'', ''application/json'')])
              = ServeHTTP req'
            \<and> header req' ''Edge-Cache'' = None
            \<and> header req' ''Accept'' = Some [''application/json'']
            \<and> reqCanCache (ctx req') = Some True
            \<and> listSelector (ctx req') = None)"
proof -
  let ?req = "podsRequest ''get'' [(''Edge-Cache'', ''True''), (''Accept'', ''application/json'')]"
  have h1: "requestInfo (ctx ?req) = Some (podsInfo ''get'')"
    by (simp add: podsRequest_def emptyContext_def)
  have h2: "IsResourceRequest (podsInfo ''get'')"
    by (simp add: podsInfo_def)
  have l: "ToLower (Header_Get (header ?req) canCacheHeader) = ''true''"
    by (simp add: podsRequest_def canCacheHeader_def Header_Get_def ToLower_def lower_char_def)
  from WithCacheHeaderCheck_frame [OF h1 h2] obtain req' where
    r: "WithCacheHeaderCheck ?req = ServeHTTP req'"
       "header req' canCacheHeader = None"
       "\<forall>k. k \<noteq> canCacheHeader \<longrightarrow> header req' k = header ?req k"
       "reqCanCache (ctx req') =
               (if ToLower (Header_Get (header ?req) canCacheHeader) = ''true''
                then Some True else reqCanCache (ctx ?req))"
       "(ctx req')\<lparr>reqCanCache := reqCanCache (ctx ?req)\<rparr> = ctx ?req"
    by blast
  have a: "header req' ''Accept'' = Some [''application/json'']"
    using r(3) by (simp add: canCacheHeader_def podsRequest_def)
  have b: "reqCanCache (ctx req') = Some True"
    using r(4) l by simp
  have "listSelector ((ctx req')\<lparr>reqCanCache := reqCanCache (ctx ?req)\<rparr>) = listSelector (ctx ?req)"
    using r(5) by simp
  then have c: "listSelector (ctx req') = None"
    by (simp add: podsRequest_def emptyContext_def)
  show ?thesis
    using h1 h2 r(1) r(2) a b c by (auto simp: canCacheHeader_def)
qed

section \<open>Selector extraction\<close>

text \<open>
  Claim C7. For every collection-list request (a resource request with verb \<open>list\<close> and no
  target name) whose query parameters decode, with \<open>ls\<close> and \<open>fs\<close> the strings of the
  label and the field selector (empty for a selector that is absent): the derived selector
  string is \<open>ls\<close>, \<open>&\<close>, \<open>fs\<close> when both are non-empty, the non-empty one when only one
  is, and empty when neither is; a non-empty selector string is stored in the context,
  and when it is empty the request is passed on as it came, with nothing stored.
\<close>

theorem WithListRequestSelector_selector:
  assumes "requestInfo (ctx req) = Some info"
    and "IsResourceRequest info" and "Verb info = ''list''" and "Name info = []"
    and "decoded = Inr opts"
    and "ls = (case LabelSelector opts of None \<Rightarrow> [] | Some s \<Rightarrow> s)"
    and "fs = (case FieldSelector opts of None \<Rightarrow> [] | Some s \<Rightarrow> s)"
  shows "selectorString (LabelSelector opts) (FieldSelector opts) =
           (if ls \<noteq> [] \<and> fs \<noteq> [] then ls @ ''&'' @ fs
            else if ls \<noteq> [] then ls
            else if fs \<noteq> [] then fs
            else [])
         \<and> WithListRequestSelector decoded req =
             ServeHTTP (if ls = [] \<and> fs = [] then req
                        else req\<lparr>ctx := (ctx req)\<lparr>listSelector :=
                               Some (selectorString (LabelSelector opts) (FieldSelector opts))\<rparr>\<rparr>)"
  using assms by (simp add: WithListRequestSelector_def selectorString_def Let_def)

text \<open>
  The theorem at a list request with the label selector \<open>app=nginx\<close> and the field
  selector \<open>spec.nodeName=node1\<close>.
\<close>

theorem WithListRequestSelector_selector_witness:
  "requestInfo (ctx (podsRequest ''list'' [])) = Some (podsInfo ''list'')
   \<and> IsResourceRequest (podsInfo ''list'') \<and> Verb (podsInfo ''list'') = ''list''
   \<and> Name (podsInfo ''list'') = []
   \<and> selectorString (Some ''app=nginx'') (Some ''spec.nodeName=node1'')
       = ''app=nginx&spec.nodeName=node1''
   \<and> WithListRequestSelector
         (Inr (selectorOptions (Some ''app=nginx'') (Some ''spec.nodeName=node1'')))
         (podsRequest ''list'' [])
       = ServeHTTP ((podsRequest ''list'' [])\<lparr>ctx := (ctx (podsRequest ''list'' []))\<lparr>listSelector :=
                       Some ''app=nginx&spec.nodeName=node1''\<rparr>\<rparr>)"
proof -
  let ?req = "podsRequest ''list'' []"
  let ?opts = "selectorOptions (Some ''app=nginx'') (Some ''spec.nodeName=node1'')"
  have h1: "requestInfo (ctx ?req) = Some (podsInfo ''list'')"
    by (simp add: podsRequest_def emptyContext_def)
  have h2: "IsResourceRequest (podsInfo ''list'')" and h3: "Verb (podsInfo ''list'') = ''list''"
    and h4: "Name (podsInfo ''list'') = []"
    by (simp_all add: podsInfo_def)
  have h6: "''app=nginx'' = (case LabelSelector ?opts of None \<Rightarrow> [] | Some s \<Rightarrow> s)"
    and h7: "''spec.nodeName=node1'' = (case FieldSelector ?opts of None \<Rightarrow> [] | Some s \<Rightarrow> s)"
    by (simp_all add: selectorOptions_def)
  have o: "LabelSelector ?opts = Some ''app=nginx''" "FieldSelector ?opts = Some ''spec.nodeName=node1''"
    by (simp_all add: selectorOptions_def)
  show ?thesis
    using WithListRequestSelector_selector [OF h1 h2 h3 h4 refl h6 h7] h1 h2 h3 h4
    by (simp add: o)
qed

section \<open>Credential rewriting\<close>

text \<open>
  Claim C6. For every request whose \<open>Authorization\<close> header carries a bearer token, the
  next handler is called, and the header is replaced by \<open>Bearer \<close> followed by the
  tenant's cached token exactly when the token parses, its claims can be read, its subject
  splits into a namespace and an account name, that namespace differs from the tenant's
  namespace, that namespace is \<open>kube-system\<close>, and the tenant's cache reports
  synchronized. In every other case, a parse failure at any stage and a tenant whose own
  namespace is \<open>kube-system\<close> included, the request is passed on as it came.
\<close>

theorem WithSaTokenSubstitute_rewrite:
  assumes "oldToken = ParseBearerToken (Header_Get (header req) ''Authorization'')"
    and "oldToken \<noteq> []"
  shows "WithSaTokenSubstitute ParseBearerToken ParseSigned UnsafeClaimsWithoutVerification
           SplitUsername tenantMgr req =
         ServeHTTP
           (if (\<exists>jsonWebToken oldClaim tenantNs saName.
                  ParseSigned oldToken = Inr jsonWebToken
                  \<and> UnsafeClaimsWithoutVerification jsonWebToken = Inr oldClaim
                  \<and> SplitUsername (Subject oldClaim) = Inr (tenantNs, saName)
                  \<and> tenantNs \<noteq> GetTenantNs tenantMgr
                  \<and> tenantNs = ''kube-system''
                  \<and> WaitForCacheSync tenantMgr)
            then req\<lparr>header := Header_Set (header req) ''Authorization''
                                 (''Bearer '' @ GetTenantToken tenantMgr)\<rparr>
            else req)"
  using assms
  by (auto simp: WithSaTokenSubstitute_def Let_def split: sum.splits prod.splits)

text \<open>
  The theorem at a request with the token \<open>T1\<close>, whose subject is
  \<open>system:serviceaccount:kube-system:default\<close>: for the tenant of namespace \<open>tenant-a\<close>
  with the cached token \<open>T2\<close> the header becomes \<open>Bearer T2\<close>; for a tenant whose namespace
  is \<open>kube-system\<close> the header stays.
\<close>

theorem WithSaTokenSubstitute_rewrite_witness:
  "''T1'' = exampleParseBearerToken
              (Header_Get (header (podsRequest ''get'' [(''Authorization'', ''Bearer T1'')])) ''Authorization'')
   \<and> ''T1'' \<noteq> []
   \<and> WithSaTokenSubstitute exampleParseBearerToken exampleParseSigned exampleClaims
        exampleSplitUsername tenantA (podsRequest ''get'' [(''Authorization'', ''Bearer T1'')])
      = ServeHTTP (podsRequest ''get'' [(''Authorization'', ''Bearer T2'')])
   \<and> WithSaTokenSubstitute exampleParseBearerToken exampleParseSigned exampleClaims
        exampleSplitUsername tenantKubeSystem (podsRequest ''get'' [(''Authorization'', ''Bearer T1'')])
      = ServeHTTP (podsRequest ''get'' [(''Authorization'', ''Bearer T1'')])"
proof -
  let ?req = "podsRequest ''get'' [(''Authorization'', ''Bearer T1'')]"
  have h1: "''T1'' = exampleParseBearerToken (Header_Get (header ?req) ''Authorization'')"
    by (simp add: exampleParseBearerToken_def Header_Get_def podsRequest_def)
  have h2: "''T1'' \<noteq> []"
    by simp
  have split: "exampleSplitUsername ''system:serviceaccount:kube-system:default''
                 = Inr (''kube-system'', ''default'')"
    by (simp add: exampleSplitUsername_def)
  have set: "?req\<lparr>header := Header_Set (header ?req) ''Authorization'' (''Bearer '' @ ''T2'')\<rparr>
               = podsRequest ''get'' [(''Authorization'', ''Bearer T2'')]"
    by (simp add: podsRequest_def Header_Set_def fun_eq_iff)
  have a: "WithSaTokenSubstitute exampleParseBearerToken exampleParseSigned exampleClaims
             exampleSplitUsername tenantA ?req
           = ServeHTTP (podsRequest ''get'' [(''Authorization'', ''Bearer T2'')])"
    using WithSaTokenSubstitute_rewrite [of "''T1''" exampleParseBearerToken ?req
        exampleParseSigned exampleClaims exampleSplitUsername tenantA, OF h1 h2] set
    by (simp add: exampleParseSigned_def exampleClaims_def split tenantA_def)
  have b: "WithSaTokenSubstitute exampleParseBearerToken exampleParseSigned exampleClaims
             exampleSplitUsername tenantKubeSystem ?req
           = ServeHTTP ?req"
    using WithSaTokenSubstitute_rewrite [of "''T1''" exampleParseBearerToken ?req
        exampleParseSigned exampleClaims exampleSplitUsername tenantKubeSystem, OF h1 h2]
    by (simp add: tenantKubeSystem_def)
  show ?thesis
    using h1 h2 a b by blast
qed

section \<open>Timeout adjustment\<close>

text \<open>
  Signed readings of the 64-bit arithmetic of the stage, where the exact result fits into
  64 bits.
\<close>

lemma sint_Second: "sint Second = 1000000000"
  by (simp add: Second_def)

lemma sint_mult_Second:
  assumes "- 9223372036 \<le> sint x" and "sint x \<le> 9223372036"
  shows "sint (x * Second) = sint x * 1000000000"
proof -
  have "sint (x * Second) = signed_take_bit 63 (sint x * 1000000000)"
    by (simp add: sint_word_mult sint_Second)
  also have "\<dots> = sint x * 1000000000"
    using assms by (intro signed_take_bit_int_eq_self) simp_all
  finally show ?thesis .
qed

lemma sint_add_margin:
  assumes "sint (ts :: 64 word) \<le> 9223372036854775792"
  shows "sint (ts + watchTimeoutMargin) = sint ts + 15"
proof -
  have lo: "- (2 ^ 63) \<le> sint ts"
    using sint_ge [of ts] by simp
  have "sint (ts + watchTimeoutMargin) = signed_take_bit 63 (sint ts + 15)"
    by (simp add: sint_word_ariths watchTimeoutMargin_def)
  also have "\<dots> = sint ts + 15"
    using assms lo by (intro signed_take_bit_int_eq_self) simp_all
  finally show ?thesis .
qed

lemma sint_sub_reduce:
  assumes "- 9223372036854775806 \<le> sint (ts :: 64 word)"
  shows "sint (ts - getAndListTimeoutReduce) = sint ts - 2"
proof -
  have hi: "sint ts < 2 ^ 63"
    using sint_lt [of ts] by simp
  have "sint (ts - getAndListTimeoutReduce) = signed_take_bit 63 (sint ts - 2)"
    by (simp add: sint_word_ariths getAndListTimeoutReduce_def)
  also have "\<dots> = sint ts - 2"
    using assms hi by (intro signed_take_bit_int_eq_self) simp_all
  finally show ?thesis .
qed

lemma sint_reduce_Second: "sint (getAndListTimeoutReduce * Second) = 2000000000"
  by (simp add: getAndListTimeoutReduce_def Second_def)

lemma sint_sub_two_seconds:
  assumes "2000000000 < sint (d :: 64 word)"
  shows "sint (d - getAndListTimeoutReduce * Second) = sint d - 2000000000"
proof -
  have hi: "sint d < 2 ^ 63"
    using sint_lt [of d] by simp
  have "sint (d - getAndListTimeoutReduce * Second) = signed_take_bit 63 (sint d - 2000000000)"
    using sint_reduce_Second by (simp add: sint_word_diff)
  also have "\<dots> = sint d - 2000000000"
    using assms hi by (intro signed_take_bit_int_eq_self) simp_all
  finally show ?thesis .
qed

lemma requestTimeout_watch:
  assumes "Verb info = ''watch''" and "decoded = Inr opts" and "TimeoutSeconds opts = Some ts"
    and "- 9223372036 \<le> sint ts + 15" and "sint ts + 15 \<le> 9223372036"
  shows "\<exists>t. requestTimeout ParseDuration decoded query_timeout info = Inr t
             \<and> sint t = (sint ts + 15) * 1000000000"
proof -
  have a: "sint (ts + watchTimeoutMargin) = sint ts + 15"
    using assms(5) by (intro sint_add_margin) simp
  have "sint ((ts + watchTimeoutMargin) * Second) = (sint ts + 15) * 1000000000"
    using sint_mult_Second [of "ts + watchTimeoutMargin"] a assms(4,5) by simp
  then show ?thesis
    using assms(1-3) by (simp add: requestTimeout_def)
qed

lemma requestTimeout_list:
  assumes "Verb info = ''list''" and "decoded = Inr opts" and "TimeoutSeconds opts = Some ts"
    and "2 < sint ts" and "sint ts - 2 \<le> 9223372036"
  shows "\<exists>t. requestTimeout ParseDuration decoded query_timeout info = Inr t
             \<and> sint t = (sint ts - 2) * 1000000000"
proof -
  have a: "sint (ts - getAndListTimeoutReduce) = sint ts - 2"
    using assms(4) by (intro sint_sub_reduce) simp
  have b: "getAndListTimeoutReduce <s ts"
    using assms(4) by (simp add: word_sless_alt getAndListTimeoutReduce_def)
  have "sint ((ts - getAndListTimeoutReduce) * Second) = (sint ts - 2) * 1000000000"
    using sint_mult_Second [of "ts - getAndListTimeoutReduce"] a assms(4,5) by simp
  then show ?thesis
    using assms(1-3) b by (simp add: requestTimeout_def)
qed

lemma requestTimeout_list_short:
  assumes "Verb info = ''list''" and "decoded = Inr opts" and "TimeoutSeconds opts = Some ts"
    and "sint ts \<le> 2"
  shows "requestTimeout ParseDuration decoded query_timeout info = Inr 0"
proof -
  have "\<not> getAndListTimeoutReduce <s ts"
    using assms(4) by (simp add: word_sless_alt getAndListTimeoutReduce_def)
  then show ?thesis
    using assms(1-3) by (simp add: requestTimeout_def)
qed

lemma requestTimeout_get:
  assumes "Verb info = ''get''" and "query_timeout = str # strs" and "ParseDuration str = Inr d"
  shows "requestTimeout ParseDuration decoded query_timeout info =
           (if 2000000000 < sint d then Inr (d - getAndListTimeoutReduce * Second) else Inr 0)"
  using assms by (simp add: requestTimeout_def word_sless_alt sint_reduce_Second)

lemma WithRequestTimeout_installs:
  assumes "requestInfo (ctx req) = Some info" and "IsResourceRequest info"
    and "needModifyTimeoutVerb (Verb info)"
    and "requestTimeout ParseDuration decoded query_timeout info = Inr t"
  shows "WithRequestTimeout ParseDuration decoded query_timeout w req =
           (if 0 < sint t then ServeHTTP (req\<lparr>ctx := (ctx req)\<lparr>ctxTimeout := Some t\<rparr>\<rparr>)
            else ServeHTTP req)"
  using assms by (simp add: WithRequestTimeout_def word_sless_alt)

text \<open>
  Claim C3, as stated, at a watch request with \<open>timeoutSeconds=18446744059\<close>: the sum with
  the margin is 18446744074 seconds, its product with the nanoseconds of a second is
  beyond 64 bits and wraps around to 290448384, and a deadline of 290448384 nanoseconds
  is installed, which is not 18446744074 seconds.
\<close>

theorem WithRequestTimeout_watch_overflow:
  "WithRequestTimeout noParseDuration (Inr (timeoutOptions 18446744059)) [] noHeader
       (podsRequest ''watch'' [])
     = ServeHTTP ((podsRequest ''watch'' [])\<lparr>ctx := (ctx (podsRequest ''watch'' []))\<lparr>ctxTimeout :=
                     Some 290448384\<rparr>\<rparr>)
   \<and> sint (18446744059 :: 64 word) = 18446744059
   \<and> sint (290448384 :: 64 word) \<noteq> (18446744059 + 15) * 1000000000"
  by (simp add: WithRequestTimeout_def requestTimeout_def podsRequest_def podsInfo_def
      emptyContext_def needModifyTimeoutVerb_def timeoutOptions_def watchTimeoutMargin_def
      Second_def word_sless_alt)

text \<open>
  Claim C3, amended. For every resource-addressed request, with \<open>T\<close> the signed value of
  the decoded timeout-seconds parameter and the deadline counted in nanoseconds:
  for verb \<open>watch\<close> with \<open>0 < T + 15 \<le> 9223372036\<close> a deadline of \<open>T + 15\<close> seconds is
  installed, and with \<open>- 9223372036 \<le> T + 15 \<le> 0\<close> none is installed;
  for verb \<open>list\<close> with \<open>2 < T\<close> and \<open>T - 2 \<le> 9223372036\<close> a deadline of \<open>T - 2\<close> seconds
  is installed, and with \<open>T \<le> 2\<close> none is installed;
  for verb \<open>get\<close> with a first \<open>timeout\<close> query parameter that parses to a duration \<open>d\<close>,
  a deadline of \<open>d\<close> less two seconds is installed when \<open>d\<close> exceeds two seconds, and
  none otherwise. 9223372036 is the largest number of whole seconds that a duration of 64
  bits holds.
\<close>

theorem WithRequestTimeout_deadline:
  assumes "requestInfo (ctx req) = Some info" and "IsResourceRequest info"
  shows "(Verb info = ''watch'' \<and> decoded = Inr opts \<and> TimeoutSeconds opts = Some ts
            \<and> 0 < sint ts + 15 \<and> sint ts + 15 \<le> 9223372036
          \<longrightarrow> (\<exists>t. WithRequestTimeout ParseDuration decoded query_timeout w req
                      = ServeHTTP (req\<lparr>ctx := (ctx req)\<lparr>ctxTimeout := Some t\<rparr>\<rparr>)
                    \<and> sint t = (sint ts + 15) * 1000000000))
       \<and> (Verb info = ''watch'' \<and> decoded = Inr opts \<and> TimeoutSeconds opts = Some ts
            \<and> - 9223372036 \<le> sint ts + 15 \<and> sint ts + 15 \<le> 0
          \<longrightarrow> WithRequestTimeout ParseDuration decoded query_timeout w req = ServeHTTP req)
       \<and> (Verb info = ''list'' \<and> decoded = Inr opts \<and> TimeoutSeconds opts = Some ts
            \<and> 2 < sint ts \<and> sint ts - 2 \<le> 9223372036
          \<longrightarrow> (\<exists>t. WithRequestTimeout ParseDuration decoded query_timeout w req
                      = ServeHTTP (req\<lparr>ctx := (ctx req)\<lparr>ctxTimeout := Some t\<rparr>\<rparr>)
                    \<and> sint t = (sint ts - 2) * 1000000000))
       \<and> (Verb info = ''list'' \<and> decoded = Inr opts \<and> TimeoutSeconds opts = Some ts
            \<and> sint ts \<le> 2
          \<longrightarrow> WithRequestTimeout ParseDuration decoded query_timeout w req = ServeHTTP req)
       \<and> (Verb info = ''get'' \<and> query_timeout = str # strs \<and> ParseDuration str = Inr d
            \<and> 2000000000 < sint d
          \<longrightarrow> (\<exists>t. WithRequestTimeout ParseDuration decoded query_timeout w req
                      = ServeHTTP (req\<lparr>ctx := (ctx req)\<lparr>ctxTimeout := Some t\<rparr>\<rparr>)
                    \<and> sint t = sint d - 2000000000))
       \<and> (Verb info = ''get'' \<and> query_timeout = str # strs \<and> ParseDuration str = Inr d
            \<and> sint d \<le> 2000000000
          \<longrightarrow> WithRequestTimeout ParseDuration decoded query_timeout w req = ServeHTTP req)"
proof (intro conjI impI; elim conjE)
  note inst = WithRequestTimeout_installs [OF assms]
  {
    assume v: "Verb info = ''watch''" and d: "decoded = Inr opts" "TimeoutSeconds opts = Some ts"
      and pos: "0 < sint ts + 15" and hi: "sint ts + 15 \<le> 9223372036"
    from requestTimeout_watch [OF v d _ hi, of ParseDuration query_timeout] pos
    obtain t where t: "requestTimeout ParseDuration decoded query_timeout info = Inr t"
      "sint t = (sint ts + 15) * 1000000000"
      by auto
    have "0 < sint t"
      using t(2) pos by simp
    with inst [OF _ t(1), of w] v t(2)
    show "\<exists>t. WithRequestTimeout ParseDuration decoded query_timeout w req
                 = ServeHTTP (req\<lparr>ctx := (ctx req)\<lparr>ctxTimeout := Some t\<rparr>\<rparr>)
               \<and> sint t = (sint ts + 15) * 1000000000"
      by (auto simp: needModifyTimeoutVerb_def)
  }
  {
    assume v: "Verb info = ''watch''" and d: "decoded = Inr opts" "TimeoutSeconds opts = Some ts"
      and lo: "- 9223372036 \<le> sint ts + 15" and np: "sint ts + 15 \<le> 0"
    have "sint ts + 15 \<le> 9223372036"
      using np by simp
    from requestTimeout_watch [OF v d lo this, of ParseDuration query_timeout]
    obtain t where t: "requestTimeout ParseDuration decoded query_timeout info = Inr t"
      "sint t = (sint ts + 15) * 1000000000"
      by auto
    have "\<not> 0 < sint t"
      using t(2) np by simp
    with inst [OF _ t(1), of w] v
    show "WithRequestTimeout ParseDuration decoded query_timeout w req = ServeHTTP req"
      by (simp add: needModifyTimeoutVerb_def)
  }
  {
    assume v: "Verb info = ''list''" and d: "decoded = Inr opts" "TimeoutSeconds opts = Some ts"
      and pos: "2 < sint ts" and hi: "sint ts - 2 \<le> 9223372036"
    from requestTimeout_list [OF v d pos hi, of ParseDuration query_timeout]
    obtain t where t: "requestTimeout ParseDuration decoded query_timeout info = Inr t"
      "sint t = (sint ts - 2) * 1000000000"
      by auto
    have "0 < sint t"
      using t(2) pos by simp
    with inst [OF _ t(1), of w] v t(2)
    show "\<exists>t. WithRequestTimeout ParseDuration decoded query_timeout w req
                 = ServeHTTP (req\<lparr>ctx := (ctx req)\<lparr>ctxTimeout := Some t\<rparr>\<rparr>)
               \<and> sint t = (sint ts - 2) * 1000000000"
      by (auto simp: needModifyTimeoutVerb_def)
  }
  {
    assume v: "Verb info = ''list''" and d: "decoded = Inr opts" "TimeoutSeconds opts = Some ts"
      and short: "sint ts \<le> 2"
    from inst [OF _ requestTimeout_list_short [OF v d short], of ParseDuration query_timeout w] v
    show "WithRequestTimeout ParseDuration decoded query_timeout w req = ServeHTTP req"
      by (simp add: needModifyTimeoutVerb_def)
  }
  {
    assume v: "Verb info = ''get''" and q: "query_timeout = str # strs" "ParseDuration str = Inr d"
      and long: "2000000000 < sint d"
    have t: "requestTimeout ParseDuration decoded query_timeout info
               = Inr (d - getAndListTimeoutReduce * Second)"
      using requestTimeout_get [where ParseDuration = ParseDuration and decoded = decoded, OF v q] long by simp
    have "0 < sint (d - getAndListTimeoutReduce * Second)"
      using sint_sub_two_seconds [OF long] long by simp
    with inst [OF _ t, of w] v sint_sub_two_seconds [OF long]
    show "\<exists>t. WithRequestTimeout ParseDuration decoded query_timeout w req
                 = ServeHTTP (req\<lparr>ctx := (ctx req)\<lparr>ctxTimeout := Some t\<rparr>\<rparr>)
               \<and> sint t = sint d - 2000000000"
      by (auto simp: needModifyTimeoutVerb_def)
  }
  {
    assume v: "Verb info = ''get''" and q: "query_timeout = str # strs" "ParseDuration str = Inr d"
      and short: "sint d \<le> 2000000000"
    have t: "requestTimeout ParseDuration decoded query_timeout info = Inr 0"
      using requestTimeout_get [where ParseDuration = ParseDuration and decoded = decoded, OF v q] short by simp
    from inst [OF _ t, of w] v
    show "WithRequestTimeout ParseDuration decoded query_timeout w req = ServeHTTP req"
      by (simp add: needModifyTimeoutVerb_def)
  }
qed

text \<open>
  The theorem at six requests: watch with 30 and with -15 seconds, list with 10 and with
  2 seconds, get with \<open>timeout=5s\<close> and with \<open>timeout=1s\<close>.
\<close>

theorem WithRequestTimeout_deadline_witness:
  "(\<exists>t. WithRequestTimeout noParseDuration (Inr (timeoutOptions 30)) [] noHeader
            (podsRequest ''watch'' [])
          = ServeHTTP ((podsRequest ''watch'' [])\<lparr>ctx := (ctx (podsRequest ''watch'' []))\<lparr>ctxTimeout := Some t\<rparr>\<rparr>)
        \<and> sint t = 45000000000)
   \<and> WithRequestTimeout noParseDuration (Inr (timeoutOptions (- 15))) [] noHeader
        (podsRequest ''watch'' [])
      = ServeHTTP (podsRequest ''watch'' [])
   \<and> (\<exists>t. WithRequestTimeout noParseDuration (Inr (timeoutOptions 10)) [] noHeader
            (podsRequest ''list'' [])
          = ServeHTTP ((podsRequest ''list'' [])\<lparr>ctx := (ctx (podsRequest ''list'' []))\<lparr>ctxTimeout := Some t\<rparr>\<rparr>)
        \<and> sint t = 8000000000)
   \<and> WithRequestTimeout noParseDuration (Inr (timeoutOptions 2)) [] noHeader
        (podsRequest ''list'' [])
      = ServeHTTP (podsRequest ''list'' [])
   \<and> (\<exists>t. WithRequestTimeout exampleParseDuration (Inl ''not decoded'') [''5s''] noHeader
            (podsRequest ''get'' [])
          = ServeHTTP ((podsRequest ''get'' [])\<lparr>ctx := (ctx (podsRequest ''get'' []))\<lparr>ctxTimeout := Some t\<rparr>\<rparr>)
        \<and> sint t = 3000000000)
   \<and> WithRequestTimeout exampleParseDuration (Inl ''not decoded'') [''1s''] noHeader
        (podsRequest ''get'' [])
      = ServeHTTP (podsRequest ''get'' [])"
proof -
  have info: "requestInfo (ctx (podsRequest verb [])) = Some (podsInfo verb)"
    "IsResourceRequest (podsInfo verb)" "Verb (podsInfo verb) = verb" for verb
    by (simp_all add: podsRequest_def emptyContext_def podsInfo_def)
  have opts: "TimeoutSeconds (timeoutOptions ts) = Some ts" for ts
    by (simp add: timeoutOptions_def)
  have dur: "exampleParseDuration ''5s'' = Inr 5000000000"
    "exampleParseDuration ''1s'' = Inr 1000000000"
    by (simp_all add: exampleParseDuration_def)
  have w1: "\<exists>t. WithRequestTimeout noParseDuration (Inr (timeoutOptions 30)) [] noHeader
            (podsRequest ''watch'' [])
          = ServeHTTP ((podsRequest ''watch'' [])\<lparr>ctx := (ctx (podsRequest ''watch'' []))\<lparr>ctxTimeout := Some t\<rparr>\<rparr>)
        \<and> sint t = 45000000000"
    using WithRequestTimeout_deadline [OF info(1,2), where decoded = "Inr (timeoutOptions 30)"
        and opts = "timeoutOptions 30" and ts = 30 and ParseDuration = noParseDuration
        and query_timeout = "[]" and w = noHeader and verb1 = "''watch''"]
    by (simp add: info opts)
  have w2: "WithRequestTimeout noParseDuration (Inr (timeoutOptions (- 15))) [] noHeader
        (podsRequest ''watch'' [])
      = ServeHTTP (podsRequest ''watch'' [])"
    using WithRequestTimeout_deadline [OF info(1,2), where decoded = "Inr (timeoutOptions (- 15))"
        and opts = "timeoutOptions (- 15)" and ts = "- 15" and ParseDuration = noParseDuration
        and query_timeout = "[]" and w = noHeader and verb1 = "''watch''"]
    by (simp add: info opts)
  have l1: "\<exists>t. WithRequestTimeout noParseDuration (Inr (timeoutOptions 10)) [] noHeader
            (podsRequest ''list'' [])
          = ServeHTTP ((podsRequest ''list'' [])\<lparr>ctx := (ctx (podsRequest ''list'' []))\<lparr>ctxTimeout := Some t\<rparr>\<rparr>)
        \<and> sint t = 8000000000"
    using WithRequestTimeout_deadline [OF info(1,2), where decoded = "Inr (timeoutOptions 10)"
        and opts = "timeoutOptions 10" and ts = 10 and ParseDuration = noParseDuration
        and query_timeout = "[]" and w = noHeader and verb1 = "''list''"]
    by (simp add: info opts)
  have l2: "WithRequestTimeout noParseDuration (Inr (timeoutOptions 2)) [] noHeader
        (podsRequest ''list'' [])
      = ServeHTTP (podsRequest ''list'' [])"
    using WithRequestTimeout_deadline [OF info(1,2), where decoded = "Inr (timeoutOptions 2)"
        and opts = "timeoutOptions 2" and ts = 2 and ParseDuration = noParseDuration
        and query_timeout = "[]" and w = noHeader and verb1 = "''list''"]
    by (simp add: info opts)
  have g1: "\<exists>t. WithRequestTimeout exampleParseDuration (Inl ''not decoded'') [''5s''] noHeader
            (podsRequest ''get'' [])
          = ServeHTTP ((podsRequest ''get'' [])\<lparr>ctx := (ctx (podsRequest ''get'' []))\<lparr>ctxTimeout := Some t\<rparr>\<rparr>)
        \<and> sint t = 3000000000"
    using WithRequestTimeout_deadline [OF info(1,2), where decoded = "Inl ''not decoded''"
        and ParseDuration = exampleParseDuration and d = 5000000000
        and query_timeout = "[''5s'']" and str = "''5s''" and strs = "[]"
        and w = noHeader and verb1 = "''get''"]
    by (simp add: info dur)
  have g2: "WithRequestTimeout exampleParseDuration (Inl ''not decoded'') [''1s''] noHeader
        (podsRequest ''get'' [])
      = ServeHTTP (podsRequest ''get'' [])"
    using WithRequestTimeout_deadline [OF info(1,2), where decoded = "Inl ''not decoded''"
        and ParseDuration = exampleParseDuration and d = 1000000000
        and query_timeout = "[''1s'']" and str = "''1s''" and strs = "[]"
        and w = noHeader and verb1 = "''get''"]
    by (simp add: info dur)
  show ?thesis
    using w1 w2 l1 l2 g1 g2 by blast
qed

section \<open>Admission control\<close>

text \<open>
  What a step of the stage keeps: the capacity of both channels, and the bound of each
  buffer by its capacity. Both carry over to every run of the stage.
\<close>

lemma enter_cap:
  assumes "maxInFlightEnter nodeName w req s = (out, s')"
  shows "cap (reqChan s') = cap (reqChan s)"
    and "cap (multiplexerReqChan s') = cap (multiplexerReqChan s)"
  using assms
  by (cases "reqChan s"; cases "multiplexerReqChan s";
      auto simp: maxInFlightEnter_def split: if_splits option.splits)+

lemma leave_cap:
  assumes "maxInFlightLeave how req s = Some s'"
  shows "cap (reqChan s') = cap (reqChan s)"
    and "cap (multiplexerReqChan s') = cap (multiplexerReqChan s)"
  using assms
  by (cases "reqChan s"; cases "multiplexerReqChan s";
      auto simp: maxInFlightLeave_def split: if_splits option.splits)+



lemma run_cap:
  assumes "run nodeName w s evs = Some (outs, s')"
  shows "cap (reqChan s') = cap (reqChan s) \<and> cap (multiplexerReqChan s') = cap (multiplexerReqChan s)"
  using assms
proof (induction evs arbitrary: s outs)
  case Nil
  then show ?case by simp
next
  case (Cons ev evs)
  show ?case
  proof (cases ev)
    case (Arrive req)
    obtain out s1 where e: "maxInFlightEnter nodeName w req s = (out, s1)"
      by (cases "maxInFlightEnter nodeName w req s")
    with Cons.prems Arrive obtain outs1 where "run nodeName w s1 evs = Some (outs1, s')"
      by (auto split: option.splits)
    from Cons.IH [OF this] enter_cap [OF e] show ?thesis
      by simp
  next
    case (Leave req how)
    with Cons.prems obtain s1 where l: "maxInFlightLeave how req s = Some s1"
      and r: "run nodeName w s1 evs = Some (outs, s')"
      by (auto split: option.splits)
    from Cons.IH [OF r] leave_cap [OF l] show ?thesis
      by simp
  qed
qed



lemma pool_cong: "isPoolScope r = isPoolScope req \<Longrightarrow> pool r s = pool req s"
  by (simp add: pool_def)


lemma enter_reject:
  assumes "full (pool req s)"
  shows "maxInFlightEnter nodeName w req s =
           (Terminated
              \<lparr>statusCode = 429, respHeader = w(''Retry-After'' \<mapsto> [''1'']),
               message = (if isPoolScope req
                          then ''Too many requests: Too many multiplexer requests for node('' @ nodeName
                                 @ ''), please try again later.''
                          else ''Too many requests: Too many requests, please try again later.'')\<rparr>,
            if isPoolScope req
            then s\<lparr>rejectedMultiplexerRequestCounter := rejectedMultiplexerRequestCounter s + 1\<rparr>
            else s\<lparr>rejectedRequestCounter := rejectedRequestCounter s + 1\<rparr>)"
  using assms
  by (cases "pool req s")
     (auto simp: pool_def maxInFlightEnter_def NewTooManyRequestsError_def Err_def Header_Set_def
           split: if_splits)




lemma cap_None: "cap c = None \<longleftrightarrow> c = NilChan"
  by (cases c) simp_all


lemma example_requests:
  "\<not> isPoolScope (podsRequest verb hdrs)" "isPoolScope poolScopeRequest"
  by (simp_all add: isPoolScope_def podsRequest_def poolScopeRequest_def emptyContext_def)



text \<open>
  Claim C1, as stated, at a stage built with limit 0 and no request in flight: an ordinary
  request is not admitted. The channel of the ordinary pool is nil, a send on it can never
  proceed, the \<open>default\<close> case of the \<open>select\<close> runs, and the request is answered with
  status 429.
\<close>

theorem maxInFlight_zero_limit_rejects:
  "\<not> isPoolScope (podsRequest ''get'' [])
   \<and> maxInFlightEnter ''node1'' noHeader (podsRequest ''get'' []) (WithMaxInFlightLimit 0)
       = (Terminated (tooManyRequests noHeader),
          (WithMaxInFlightLimit 0)\<lparr>rejectedRequestCounter := 1\<rparr>)
   \<and> len (reqChan (WithMaxInFlightLimit 0)) = 0"
  by (simp add: isPoolScope_def podsRequest_def emptyContext_def maxInFlightEnter_def
      WithMaxInFlightLimit_def tooManyRequests_def NewTooManyRequestsError_def Err_def
      Header_Set_def)

text \<open>
  Claim C1, amended. For the stage built with a non-positive ordinary-pool size, in every
  state that a run of arrivals and completions reaches, whatever is in flight: the channel
  of the ordinary pool is nil, and every request that is not pool-scope is answered with
  status 429 and the header \<open>Retry-After: 1\<close>, the next handler is not called and the
  counter of rejected ordinary requests goes up by one; the pool-scope gate keeps its
  capacity of 4096.
\<close>

theorem maxInFlight_nonpositive_limit:
  assumes "limit \<le> 0" and "\<not> isPoolScope req"
    and "run nodeName w (WithMaxInFlightLimit limit) evs = Some (outs, s)"
  shows "maxInFlightEnter nodeName w req s =
           (Terminated (tooManyRequests w),
            s\<lparr>rejectedRequestCounter := rejectedRequestCounter s + 1\<rparr>)
         \<and> reqChan s = NilChan
         \<and> cap (multiplexerReqChan s) = Some 4096"
proof -
  have "cap (reqChan (WithMaxInFlightLimit limit)) = None"
    and "cap (multiplexerReqChan (WithMaxInFlightLimit limit)) = Some 4096"
    using assms(1) by (simp_all add: WithMaxInFlightLimit_def make_chan_def)
  with run_cap [OF assms(3)] have nil: "reqChan s = NilChan"
    and m: "cap (multiplexerReqChan s) = Some 4096"
    by (simp_all add: cap_None)
  have "full (pool req s)"
    using nil assms(2) by (simp add: pool_def)
  from enter_reject [OF this, of nodeName w] assms(2) nil m show ?thesis
    by (simp add: tooManyRequests_def)
qed

text \<open>
  The theorem at a stage built with limit 0, after a pool-scope request was admitted and
  an ordinary request rejected, and at a fresh stage built with limit -1.
\<close>

theorem maxInFlight_nonpositive_limit_witness:
  "(0::int) \<le> 0 \<and> \<not> isPoolScope (podsRequest ''get'' [])
   \<and> run ''node1'' noHeader (WithMaxInFlightLimit 0)
        [Arrive poolScopeRequest, Arrive (podsRequest ''get'' [])]
      = Some ([ServeHTTP poolScopeRequest, Terminated (tooManyRequests noHeader)], closedGate)
   \<and> maxInFlightEnter ''node1'' noHeader (podsRequest ''get'' []) closedGate
      = (Terminated (tooManyRequests noHeader), closedGate\<lparr>rejectedRequestCounter := 2\<rparr>)
   \<and> maxInFlightEnter ''node1'' noHeader (podsRequest ''get'' []) (WithMaxInFlightLimit (- 1))
      = (Terminated (tooManyRequests noHeader),
         (WithMaxInFlightLimit (- 1))\<lparr>rejectedRequestCounter := 1\<rparr>)"
proof -
  let ?r = "podsRequest ''get'' []"
  note ord = example_requests(1) [of "''get''" "[]"]
  have h1: "(0::int) \<le> 0" and h1': "(- 1::int) \<le> 0"
    by simp_all
  have run2: "run ''node1'' noHeader (WithMaxInFlightLimit 0) [Arrive poolScopeRequest, Arrive ?r]
      = Some ([ServeHTTP poolScopeRequest, Terminated (tooManyRequests noHeader)], closedGate)"
    by (simp add: maxInFlightEnter_def ord example_requests WithMaxInFlightLimit_def
        make_chan_def closedGate_def tooManyRequests_def NewTooManyRequestsError_def Err_def
        Header_Set_def)
  have run0: "run ''node1'' noHeader (WithMaxInFlightLimit (- 1)) []
                = Some ([], WithMaxInFlightLimit (- 1))"
    by simp
  have a: "maxInFlightEnter ''node1'' noHeader ?r closedGate
      = (Terminated (tooManyRequests noHeader), closedGate\<lparr>rejectedRequestCounter := 2\<rparr>)"
  proof -
    have "rejectedRequestCounter closedGate + 1 = 2"
      by (simp add: closedGate_def)
    with maxInFlight_nonpositive_limit [OF h1 ord run2] show ?thesis
      by simp
  qed
  have b: "maxInFlightEnter ''node1'' noHeader ?r (WithMaxInFlightLimit (- 1))
      = (Terminated (tooManyRequests noHeader),
         (WithMaxInFlightLimit (- 1))\<lparr>rejectedRequestCounter := 1\<rparr>)"
  proof -
    have "rejectedRequestCounter (WithMaxInFlightLimit (- 1)) + 1 = 1"
      by (simp add: WithMaxInFlightLimit_def)
    with maxInFlight_nonpositive_limit [OF h1' ord run0] show ?thesis
      by simp
  qed
  show ?thesis
    using h1 ord run2 a b by blast
qed

section \<open>Partial-metadata negotiation\<close>

text \<open>
  \<open>Contains\<close> is the substring relation. Every string that contains \<open>v1beta1\<close> contains
  \<open>v1\<close>, so the first case of the \<open>switch\<close> in \<open>ensureValidGroupAndVersion\<close> takes
  every version that the second case could take: whenever the function succeeds, the
  version it yields is \<open>v1\<close>.
\<close>

lemma HasPrefix_iff: "HasPrefix s p \<longleftrightarrow> (\<exists>q. s = p @ q)"
  by (induction s p rule: HasPrefix.induct) auto

lemma Contains_iff: "Contains s sub \<longleftrightarrow> (\<exists>p q. s = p @ sub @ q)"
proof (induction s)
  case Nil
  then show ?case by (auto simp: HasPrefix_iff)
next
  case (Cons c cs)
  show ?case
  proof
    assume "Contains (c # cs) sub"
    then consider "HasPrefix (c # cs) sub" | "Contains cs sub"
      by auto
    then show "\<exists>p q. c # cs = p @ sub @ q"
    proof cases
      case 1
      then obtain q where "c # cs = sub @ q"
        by (auto simp: HasPrefix_iff)
      then have "c # cs = [] @ sub @ q"
        by simp
      then show ?thesis by blast
    next
      case 2
      with Cons.IH obtain p q where "cs = p @ sub @ q"
        by auto
      then have "c # cs = (c # p) @ sub @ q"
        by simp
      then show ?thesis by blast
    qed
  next
    assume "\<exists>p q. c # cs = p @ sub @ q"
    then obtain p q where e: "c # cs = p @ sub @ q"
      by auto
    show "Contains (c # cs) sub"
    proof (cases p)
      case Nil
      with e have "HasPrefix (c # cs) sub"
        by (auto simp: HasPrefix_iff)
      then show ?thesis by simp
    next
      case (Cons d p')
      with e have "cs = p' @ sub @ q"
        by simp
      with Cons.IH have "Contains cs sub"
        by auto
      then show ?thesis by simp
    qed
  qed
qed

lemma Contains_v1beta1_v1: "Contains v ''v1beta1'' \<Longrightarrow> Contains v ''v1''"
proof -
  assume "Contains v ''v1beta1''"
  then obtain p q where "v = p @ ''v1beta1'' @ q"
    by (auto simp: Contains_iff)
  then have "v = p @ ''v1'' @ (''beta1'' @ q)"
    by simp
  then show ?thesis
    unfolding Contains_iff by blast
qed

lemma ensureValidGroupAndVersion_never_v1beta1:
  assumes "ensureValidGroupAndVersion gvk = Inr gvk'"
  shows "gvk' = \<lparr>Group = ''meta.k8s.io'', Version = ''v1'', Kind = Kind gvk\<rparr>"
  using assms Contains_v1beta1_v1 [of "Version gvk"]
  by (auto simp: ensureValidGroupAndVersion_def Let_def split: if_splits)

lemma ensureValidGroupAndVersion_v1:
  assumes "Contains (Group gvk) ''meta.k8s.io''" and "Contains (Version gvk) ''v1''"
  shows "ensureValidGroupAndVersion gvk
           = Inr \<lparr>Group = ''meta.k8s.io'', Version = ''v1'', Kind = Kind gvk\<rparr>"
  using assms by (simp add: ensureValidGroupAndVersion_def Let_def)

text \<open>
  Claim C2, the code at a list request with the header
  \<open>Accept: application/json;as=PartialObjectMetadataList;g=meta.k8s.io;v=v1beta1\<close>:
  the raw version contains \<open>v1beta1\<close>, and the override stored in the context has the
  version \<open>v1\<close>, where the claim has \<open>v1beta1\<close>.
\<close>

theorem WithPartialObjectMetadataRequest_v1beta1:
  "WithPartialObjectMetadataRequest exampleParseAccept
       (podsRequest ''list'' [(''Accept'', partialMetadataAccept)])
     = ServeHTTP ((podsRequest ''list'' [(''Accept'', partialMetadataAccept)])
         \<lparr>ctx := (ctx (podsRequest ''list'' [(''Accept'', partialMetadataAccept)]))
            \<lparr>convertGVK := Some \<lparr>Group = ''meta.k8s.io'', Version = ''v1'',
                                  Kind = ''PartialObjectMetadataList''\<rparr>\<rparr>\<rparr>)
   \<and> Contains ''v1beta1'' ''v1beta1''"
  by (simp add: WithPartialObjectMetadataRequest_def podsRequest_def podsInfo_def emptyContext_def
      Header_Get_def exampleParseAccept_def param_def ensureValidGroupAndVersion_def Let_def)

section \<open>The pod environment filter\<close>

lemma mutateEnv_idem: "mutateEnv host (mutateEnv host envVars) = mutateEnv host envVars"
  by (induction envVars) simp_all

text \<open>
  Claim C8. Applying the filter twice yields what applying it once yields, for every
  object; and an object that is not a pod is returned as it is.
\<close>

theorem Filter_idempotent:
  "Filter host (Filter host obj) = Filter host obj
   \<and> Filter host (OtherObject v) = OtherObject v"
  by (cases obj) (simp_all add: Filter_def mutatePodEnv_def mutateEnv_idem comp_def)

text \<open>
  Claim C5, the code at the pod of the filter's own test \<open>TestFilterMasterPortNoop\<close>: the
  filter is new, only its port has been set, so its host is empty; the pod has
  \<open>KUBERNETES_SERVICE_HOST\<close> with the value \<open>169.254.2.1\<close>. The filter returns the pod with
  that value replaced by the empty string, where the claim has the pod unchanged.
\<close>

theorem Filter_empty_host:
  "Filter (SetMasterServicePort ''10261'' NewPodEnvFilter) (testPodObject ''169.254.2.1'')
     = testPodObject []
   \<and> testPodObject [] \<noteq> testPodObject ''169.254.2.1''"
  by (simp add: Filter_def mutatePodEnv_def testPodObject_def testPod_def
      SetMasterServicePort_def NewPodEnvFilter_def envVarServiceHost_def)

text \<open>
  The rest of claim C5 on the code: the filter keeps the number and the names of the
  variables of a container and every component it does not read, and a container in which
  every variable of the name already has the host as its value is left as it is.
\<close>

lemma mutateEnv_names:
  "map EnvName (mutateEnv host envVars) = map EnvName envVars
   \<and> map EnvRest (mutateEnv host envVars) = map EnvRest envVars"
  by (induction envVars) simp_all

lemma mutateEnv_other_values:
  "[Value e. e \<leftarrow> mutateEnv host envVars, EnvName e \<noteq> envVarServiceHost]
     = [Value e. e \<leftarrow> envVars, EnvName e \<noteq> envVarServiceHost]"
  by (induction envVars) simp_all

lemma mutateEnv_already_set:
  "\<forall>e\<in>set envVars. EnvName e = envVarServiceHost \<longrightarrow> Value e = host
     \<Longrightarrow> mutateEnv host envVars = envVars"
  by (induction envVars) simp_all

lemma mutatePodEnv_frame:
  "PodRest (mutatePodEnv host req) = PodRest req
   \<and> SpecRest (Spec (mutatePodEnv host req)) = SpecRest (Spec req)
   \<and> map ContainerName (Containers (Spec (mutatePodEnv host req)))
       = map ContainerName (Containers (Spec req))
   \<and> map ContainerRest (Containers (Spec (mutatePodEnv host req)))
       = map ContainerRest (Containers (Spec req))"
  by (simp add: mutatePodEnv_def comp_def)

lemma mutatePodEnv_already_set:
  assumes "\<forall>c\<in>set (Containers (Spec req)). \<forall>e\<in>set (Env c).
             EnvName e = envVarServiceHost \<longrightarrow> Value e = host"
  shows "mutatePodEnv host req = req"
proof -
  have "map (\<lambda>c. c\<lparr>Env := mutateEnv host (Env c)\<rparr>) (Containers (Spec req))
          = map (\<lambda>c. c) (Containers (Spec req))"
    using assms by (intro map_cong refl) (simp add: mutateEnv_already_set)
  then show ?thesis
    by (simp add: mutatePodEnv_def)
qed

text \<open>
  The cases of the filter's tests \<open>TestFilterPodEnv\<close> and \<open>TestFilterNonPodEnv\<close>, on the
  model: a value is replaced by the host, a value that is the host stays, a pod without
  the variable is unchanged, the variable is replaced in each of two containers, and an
  object that is not a pod is returned as it is.
\<close>

lemma Filter_tests:
  "Filter (SetMasterServiceHost masterHost NewPodEnvFilter)
     (envPod [[(''KUBERNETES_SERVICE_HOST'', ''original-value''), (''OTHER_ENV_VAR'', ''some-value'')]])
   = envPod [[(''KUBERNETES_SERVICE_HOST'', masterHost), (''OTHER_ENV_VAR'', ''some-value'')]]"
  "Filter (SetMasterServiceHost masterHost NewPodEnvFilter)
     (envPod [[(''KUBERNETES_SERVICE_HOST'', masterHost), (''OTHER_ENV_VAR'', ''some-value'')]])
   = envPod [[(''KUBERNETES_SERVICE_HOST'', masterHost), (''OTHER_ENV_VAR'', ''some-value'')]]"
  "Filter (SetMasterServiceHost masterHost NewPodEnvFilter)
     (envPod [[(''OTHER_ENV_VAR'', ''some-value'')]])
   = envPod [[(''OTHER_ENV_VAR'', ''some-value'')]]"
  "Filter (SetMasterServiceHost masterHost NewPodEnvFilter)
     (envPod [[(''KUBERNETES_SERVICE_HOST'', ''original-value''), (''OTHER_ENV_VAR'', ''some-value'')],
              [(''KUBERNETES_SERVICE_HOST'', ''original-value''), (''OTHER_ENV_VAR'', ''some-value'')]])
   = envPod [[(''KUBERNETES_SERVICE_HOST'', masterHost), (''OTHER_ENV_VAR'', ''some-value'')],
             [(''KUBERNETES_SERVICE_HOST'', masterHost), (''OTHER_ENV_VAR'', ''some-value'')]]"
  "Filter NewPodEnvFilter (OtherObject ''svc1'' :: (unit, unit, unit, unit, string) Object)
   = OtherObject ''svc1''"
  by (simp_all add: Filter_def mutatePodEnv_def envPod_def SetMasterServiceHost_def
      envVarServiceHost_def)

section \<open>Client-component extraction\<close>

text \<open>The first piece of a split is the string up to the first separator.\<close>

lemma Split_first: "\<exists>ps. Split s sep = takeWhile (\<lambda>c. c \<noteq> sep) s # ps"
  by (induction s) auto

lemma agentRequest_info:
  "requestInfo (ctx (agentRequest agent)) = Some (podsInfo ''get'')"
  "requestInfo (ctx (overrideRequest agent gvk)) = Some (podsInfo ''get'')"
  "IsResourceRequest (podsInfo ''get'')"
  "Header_Get (header (agentRequest agent)) ''User-Agent'' = agent"
  "Header_Get (header (overrideRequest agent gvk)) ''User-Agent'' = agent"
  "convertGVK (ctx (agentRequest agent)) = None"
  "convertGVK (ctx (overrideRequest agent gvk)) = Some gvk"
  by (simp_all add: agentRequest_def overrideRequest_def podsRequest_def podsInfo_def
      emptyContext_def Header_Get_def)

text \<open>
  Claim C9, as stated, at a stage built for cloud mode and the header
  \<open>User-Agent: Kubelet/1.0 (linux/amd64)\<close>, an ASCII string, which \<open>ToLower\<close> lower-cases
  as the library function does: the component stored is the whole lower-cased header,
  \<open>kubelet/1.0 (linux/amd64)\<close>, not \<open>kubelet\<close>. The source cuts the header at the first
  \<open>/\<close> in edge mode only.
\<close>

theorem WithRequestClientComponent_cloud_mode:
  "WithRequestClientComponent ToLower WorkingModeCloud (agentRequest ''Kubelet/1.0 (linux/amd64)'')
     = ServeHTTP (withComponent ''kubelet/1.0 (linux/amd64)''
                    (agentRequest ''Kubelet/1.0 (linux/amd64)''))
   \<and> IsResourceRequest (podsInfo ''get'')
   \<and> requestInfo (ctx (agentRequest ''Kubelet/1.0 (linux/amd64)'')) = Some (podsInfo ''get'')
   \<and> ''kubelet/1.0 (linux/amd64)'' \<noteq> ''kubelet''"
  by (simp add: WithRequestClientComponent_def agentRequest_def podsRequest_def podsInfo_def
      emptyContext_def Header_Get_def ToLower_def lower_char_def withComponent_def)

text \<open>
  Claim C9, amended. For every resource-addressed request, and whatever function
  \<open>toLower\<close> lower-cases strings: let the component be the lower-cased \<open>User-Agent\<close>
  header, whole when the stage is not built for edge mode; when it is built for edge mode,
  the part of the lower-cased header before its first \<open>/\<close>, lower-cased once more. When
  the component is empty the request is passed on as it came. Otherwise the client
  component stored in the context is the component itself when no partial-metadata
  override is set, and the path join of the component and \<open>partialobjectmetadatas.\<close>,
  version, \<open>.\<close>, group of the override when one is set.
\<close>

theorem WithRequestClientComponent_component:
  assumes "requestInfo (ctx req) = Some info" and "IsResourceRequest info"
    and "agent = toLower (Header_Get (header req) ''User-Agent'')"
    and "component = (if mode = WorkingModeEdge
                      then toLower (takeWhile (\<lambda>c. c \<noteq> CHR ''/'') agent)
                      else agent)"
  shows "WithRequestClientComponent toLower mode req =
           ServeHTTP
             (if component = [] then req
              else withComponent
                     (case convertGVK (ctx req) of
                        None \<Rightarrow> component
                      | Some gvk \<Rightarrow>
                          filepath_Join
                            [component, ''partialobjectmetadatas.'' @ Version gvk @ ''.'' @ Group gvk])
                     req)"
proof -
  obtain ps where s: "Split agent CHR ''/'' = takeWhile (\<lambda>c. c \<noteq> CHR ''/'') agent # ps"
    using Split_first by blast
  show ?thesis
    using assms(1,2,4) s
    by (simp add: WithRequestClientComponent_def Let_def assms(3) [symmetric] withComponent_def
        split: option.splits)
qed

text \<open>
  The theorem at four requests with ASCII headers, with \<open>ToLower\<close> for the lower-casing
  function: in edge mode \<open>Kubelet/1.0 (linux/amd64)\<close> gives \<open>kubelet\<close>, and \<open>kubelet\<close> with
  the override of group \<open>meta.k8s.io\<close> and version \<open>v1\<close> gives
  \<open>kubelet/partialobjectmetadatas.v1.meta.k8s.io\<close>; in cloud mode
  \<open>Kubelet/1.0 (linux/amd64)\<close> gives \<open>kubelet/1.0 (linux/amd64)\<close>; in edge mode \<open>/1.0\<close>
  gives nothing.
\<close>

theorem WithRequestClientComponent_component_witness:
  "requestInfo (ctx (agentRequest ''Kubelet/1.0 (linux/amd64)'')) = Some (podsInfo ''get'')
   \<and> IsResourceRequest (podsInfo ''get'')
   \<and> WithRequestClientComponent ToLower WorkingModeEdge (agentRequest ''Kubelet/1.0 (linux/amd64)'')
      = ServeHTTP (withComponent ''kubelet'' (agentRequest ''Kubelet/1.0 (linux/amd64)''))
   \<and> WithRequestClientComponent ToLower WorkingModeEdge
        (overrideRequest ''kubelet''
           \<lparr>Group = ''meta.k8s.io'', Version = ''v1'', Kind = ''PartialObjectMetadata''\<rparr>)
      = ServeHTTP (withComponent ''kubelet/partialobjectmetadatas.v1.meta.k8s.io''
          (overrideRequest ''kubelet''
             \<lparr>Group = ''meta.k8s.io'', Version = ''v1'', Kind = ''PartialObjectMetadata''\<rparr>))
   \<and> WithRequestClientComponent ToLower WorkingModeCloud (agentRequest ''Kubelet/1.0 (linux/amd64)'')
      = ServeHTTP (withComponent ''kubelet/1.0 (linux/amd64)''
                     (agentRequest ''Kubelet/1.0 (linux/amd64)''))
   \<and> WithRequestClientComponent ToLower WorkingModeEdge (agentRequest ''/1.0'')
      = ServeHTTP (agentRequest ''/1.0'')"
proof -
  let ?gvk = "\<lparr>Group = ''meta.k8s.io'', Version = ''v1'', Kind = ''PartialObjectMetadata''\<rparr>"
  have low: "ToLower ''Kubelet/1.0 (linux/amd64)'' = ''kubelet/1.0 (linux/amd64)''"
    "ToLower ''kubelet'' = ''kubelet''" "ToLower ''/1.0'' = ''/1.0''" "ToLower [] = []"
    by (simp_all add: ToLower_def lower_char_def)
  have join: "filepath_Join [''kubelet'', ''partialobjectmetadatas.'' @ ''v1'' @ ''.'' @ ''meta.k8s.io'']
                = ''kubelet/partialobjectmetadatas.v1.meta.k8s.io''"
    by (simp add: filepath_Join_def Clean_def)
  have a: "WithRequestClientComponent ToLower WorkingModeEdge (agentRequest ''Kubelet/1.0 (linux/amd64)'')
      = ServeHTTP (withComponent ''kubelet'' (agentRequest ''Kubelet/1.0 (linux/amd64)''))"
    using WithRequestClientComponent_component
        [OF agentRequest_info(1) [of "''Kubelet/1.0 (linux/amd64)''"] agentRequest_info(3) refl refl,
         where toLower = ToLower and mode = WorkingModeEdge]
    by (simp add: agentRequest_info low)
  have b: "WithRequestClientComponent ToLower WorkingModeEdge (overrideRequest ''kubelet'' ?gvk)
      = ServeHTTP (withComponent ''kubelet/partialobjectmetadatas.v1.meta.k8s.io''
          (overrideRequest ''kubelet'' ?gvk))"
    using WithRequestClientComponent_component
        [OF agentRequest_info(2) [of "''kubelet''" ?gvk] agentRequest_info(3) refl refl,
         where toLower = ToLower and mode = WorkingModeEdge] join
    by (simp add: agentRequest_info low)
  have c: "WithRequestClientComponent ToLower WorkingModeCloud (agentRequest ''Kubelet/1.0 (linux/amd64)'')
      = ServeHTTP (withComponent ''kubelet/1.0 (linux/amd64)''
                     (agentRequest ''Kubelet/1.0 (linux/amd64)''))"
    using WithRequestClientComponent_component
        [OF agentRequest_info(1) [of "''Kubelet/1.0 (linux/amd64)''"] agentRequest_info(3) refl refl,
         where toLower = ToLower and mode = WorkingModeCloud]
    by (simp add: agentRequest_info low)
  have d: "WithRequestClientComponent ToLower WorkingModeEdge (agentRequest ''/1.0'')
      = ServeHTTP (agentRequest ''/1.0'')"
    using WithRequestClientComponent_component
        [OF agentRequest_info(1) [of "''/1.0''"] agentRequest_info(3) refl refl,
         where toLower = ToLower and mode = WorkingModeEdge]
    by (simp add: agentRequest_info low)
  show ?thesis
    using agentRequest_info(1,3) a b c d by blast
qed

text \<open>
  With \<open>ToLower\<close> for the lower-casing function the second lower-casing changes nothing:
  the component in edge mode is the part of the lower-cased header before its first \<open>/\<close>.
\<close>

lemma lower_char_idem: "lower_char (lower_char c) = lower_char c"
  by (simp add: lower_char_def)

lemma ToLower_takeWhile:
  "ToLower (takeWhile P (ToLower s)) = takeWhile P (ToLower s)"
proof -
  have "lower_char c = c" if "c \<in> set (takeWhile P (ToLower s))" for c
  proof -
    from that have "c \<in> set (ToLower s)"
      by (rule set_takeWhileD [THEN conjunct1])
    then obtain d where "c = lower_char d"
      by (auto simp: ToLower_def)
    then show ?thesis
      by (simp add: lower_char_idem)
  qed
  then show ?thesis
    unfolding ToLower_def by (simp add: map_idI)
qed

text \<open>
  The path join written out: for a component that has no \<open>/\<close> and is neither \<open>.\<close> nor
  \<open>..\<close>, and an override whose version and group have no \<open>/\<close>, the join is the
  component, \<open>/\<close>, and the suffix.
\<close>

lemma Split_no_sep: "sep \<notin> set s \<Longrightarrow> Split s sep = [s]"
  by (induction s) auto

lemma Split_append: "sep \<notin> set a \<Longrightarrow> Split (a @ sep # b) sep = a # Split b sep"
  by (induction a) auto

lemma filepath_Join_plain:
  assumes "component \<noteq> []" and "CHR ''/'' \<notin> set component"
    and "component \<noteq> ''.''" and "component \<noteq> ''..''"
    and "CHR ''/'' \<notin> set version" and "CHR ''/'' \<notin> set grp"
  shows "filepath_Join [component, ''partialobjectmetadatas.'' @ version @ ''.'' @ grp]
           = component @ ''/partialobjectmetadatas.'' @ version @ ''.'' @ grp"
proof -
  let ?suffix = "''partialobjectmetadatas.'' @ version @ ''.'' @ grp"
  have nosep: "CHR ''/'' \<notin> set ?suffix"
    using assms(5,6) by simp
  have split: "Split (component @ CHR ''/'' # ?suffix) CHR ''/'' = [component, ?suffix]"
    using Split_append [OF assms(2)] Split_no_sep [OF nosep] by simp
  have unrooted: "\<not> HasPrefix (component @ CHR ''/'' # ?suffix) ''/''"
    using assms(1,2) by (cases component) auto
  have elems: "cleanElems False [] [component, ?suffix] = [component, ?suffix]"
    using assms(1,3,4) by simp
  have "Clean (component @ CHR ''/'' # ?suffix) = component @ CHR ''/'' # ?suffix"
    unfolding Clean_def Let_def split using unrooted elems assms(1) by simp
  then show ?thesis
    using assms(1) by (simp add: filepath_Join_def)
qed

end
